theory Spec2Isabelle
  imports Complex_Main "HOL-Library.AList" "HOL-Library.Multiset"
begin

section \<open>Nutrition Advisor: the matching core of \<open>main.py\<close>\<close>

text \<open>
  The program reads a CSV file into a pandas DataFrame, cleans it
  (\<open>load_and_preprocess_data\<close>), and answers a query by filtering the rows on gender and
  BMI category and returning the row of least weighted rank distance
  (\<open>find_best_match\<close>).

  Modelling choices.
  \<^item> Numbers are \<open>real\<close>. The thresholds and weights of the program (18.5, 25, 1.5, 2, ...)
    and the ranks 0..3 are binary fractions, so comparisons and the score of a normalised
    row are the same in floating point; the mean of two middle values in a median is
    exact here and rounded there.
  \<^item> A missing value (pandas \<open>NaN\<close>) is \<open>None\<close> in a column and \<open>NaN\<close> in a row.
  \<^item> A DataFrame is the ordered list of its named columns. A column read by
    \<open>read_csv\<close> is numeric (\<open>NumCol\<close>, dtype float64/int64) or text (\<open>StrCol\<close>, dtype
    object or str); \<open>is_numeric_dtype\<close> holds of the first kind only.
  \<^item> Where the installed pandas and Python decide the behaviour, it is a field of the
    record \<open>runtime\<close>, and the properties are stated for every runtime:
    whether the chained in-place \<open>fillna\<close> of line 32 writes through to the frame (it
    does without copy-on-write and does not with it); whether \<open>is_string_dtype\<close> holds
    of a text column that has a missing value (it does in pandas 1, where every object
    column is accepted, and does not in pandas 2, where every element must be a string);
    and what \<open>str.strip\<close> and \<open>str.upper\<close> return, which Python defines on all of
    Unicode.
  \<^item> \<open>ascii_strip\<close> and \<open>ascii_upper\<close> are \<open>str.strip\<close> and \<open>str.upper\<close> on ASCII
    text; they serve the examples, whose text is ASCII. \<open>str.title\<close> is used for
    display only and is modelled on ASCII letters.
  \<^item> Exceptions are values: a function that can raise returns \<open>exn + 'a\<close>.
\<close>

subsection \<open>Exceptions\<close>

datatype exn =
  FileNotFoundError | PermissionError | ParserError | KeyError string | TypeError
  | AttributeError

definition bind_exn :: "exn + 'a \<Rightarrow> ('a \<Rightarrow> exn + 'b) \<Rightarrow> exn + 'b" where
  "bind_exn m f = (case m of Inl e \<Rightarrow> Inl e | Inr x \<Rightarrow> f x)"

fun mapM_exn :: "('a \<Rightarrow> exn + 'b) \<Rightarrow> 'a list \<Rightarrow> exn + 'b list" where
  "mapM_exn f [] = Inr []"
| "mapM_exn f (x # xs) =
     bind_exn (f x) (\<lambda>y. bind_exn (mapM_exn f xs) (\<lambda>ys. Inr (y # ys)))"

subsection \<open>Constants\<close>

definition EATING_HABIT_RANKING :: "(string \<times> int) list" where
  "EATING_HABIT_RANKING = [(''NEVER'', 0), (''RARELY'', 1), (''OFTEN'', 2), (''DAILY'', 3)]"

definition ACTIVITY_RANKING :: "(string \<times> int) list" where
  "ACTIVITY_RANKING =
     [(''LIGHT ACTIVE'', 0), (''MODERATELY ACTIVE'', 1), (''ACTIVE'', 2), (''VERY ACTIVE'', 3)]"

text \<open>\<open>d.get(k, default)\<close> of a Python dict.\<close>

definition dict_get :: "('k \<times> 'v) list \<Rightarrow> 'k \<Rightarrow> 'v \<Rightarrow> 'v" where
  "dict_get d k dflt = (case map_of d k of None \<Rightarrow> dflt | Some v \<Rightarrow> v)"

subsection \<open>DataFrames\<close>

datatype cell = Num real | Str string | NaN

datatype column = NumCol "real option list" | StrCol "string option list"

type_synonym dataframe = "(string \<times> column) list"

type_synonym row = "(string \<times> cell) list"

fun col_len :: "column \<Rightarrow> nat" where
  "col_len (NumCol xs) = length xs"
| "col_len (StrCol xs) = length xs"

fun cell_at :: "column \<Rightarrow> nat \<Rightarrow> cell" where
  "cell_at (NumCol xs) i = (case xs ! i of None \<Rightarrow> NaN | Some x \<Rightarrow> Num x)"
| "cell_at (StrCol xs) i = (case xs ! i of None \<Rightarrow> NaN | Some s \<Rightarrow> Str s)"

definition columns :: "dataframe \<Rightarrow> string list" where
  "columns df = map fst df"

definition nrows :: "dataframe \<Rightarrow> nat" where
  "nrows df = (case df of [] \<Rightarrow> 0 | (k, c) # rest \<Rightarrow> col_len c)"

text \<open>A frame as \<open>read_csv\<close> builds it: distinct column names, columns of one length.\<close>

definition wf_df :: "dataframe \<Rightarrow> bool" where
  "wf_df df = (distinct (columns df) \<and> (\<forall>kc \<in> set df. col_len (snd kc) = nrows df))"

text \<open>\<open>df[col]\<close>: the column, or \<open>KeyError\<close>.\<close>

definition getitem :: "dataframe \<Rightarrow> string \<Rightarrow> exn + column" where
  "getitem df col = (case map_of df col of None \<Rightarrow> Inl (KeyError col) | Some c \<Rightarrow> Inr c)"

text \<open>\<open>row[col]\<close> on a row (a Series indexed by the column names).\<close>

definition row_get :: "row \<Rightarrow> string \<Rightarrow> exn + cell" where
  "row_get r col = (case map_of r col of None \<Rightarrow> Inl (KeyError col) | Some c \<Rightarrow> Inr c)"

text \<open>\<open>df.iloc[i]\<close> for a position within range, and \<open>df.iterrows()\<close>.\<close>

definition iloc :: "dataframe \<Rightarrow> nat \<Rightarrow> row" where
  "iloc df i = map (\<lambda>kc. (fst kc, cell_at (snd kc) i)) df"

definition iterrows :: "dataframe \<Rightarrow> row list" where
  "iterrows df = map (iloc df) [0..<nrows df]"

text \<open>\<open>series == s\<close> for a string \<open>s\<close>: elementwise, false on a missing or numeric value.\<close>

fun col_eq :: "column \<Rightarrow> string \<Rightarrow> bool list" where
  "col_eq (StrCol xs) s = map (\<lambda>x. x = Some s) xs"
| "col_eq (NumCol xs) s = map (\<lambda>x. False) xs"

text \<open>
  \<open>df[mask]\<close> for a boolean mask: pandas takes the rows at the positions where the mask
  is true, in increasing order.
\<close>

definition nonzero :: "bool list \<Rightarrow> nat list" where
  "nonzero m = filter (\<lambda>i. m ! i) [0..<length m]"

fun take_col :: "nat list \<Rightarrow> column \<Rightarrow> column" where
  "take_col idx (NumCol xs) = NumCol (map (\<lambda>i. xs ! i) idx)"
| "take_col idx (StrCol xs) = StrCol (map (\<lambda>i. xs ! i) idx)"

definition bool_index :: "dataframe \<Rightarrow> bool list \<Rightarrow> dataframe" where
  "bool_index df m = map (\<lambda>kc. (fst kc, take_col (nonzero m) (snd kc))) df"

subsection \<open>Strings\<close>

definition ascii_lowercase :: string where
  "ascii_lowercase = ''abcdefghijklmnopqrstuvwxyz''"

definition ascii_uppercase :: string where
  "ascii_uppercase = ''ABCDEFGHIJKLMNOPQRSTUVWXYZ''"

definition is_lower :: "char \<Rightarrow> bool" where
  "is_lower c = (c \<in> set ascii_lowercase)"

definition is_upper :: "char \<Rightarrow> bool" where
  "is_upper c = (c \<in> set ascii_uppercase)"

definition upper_char :: "char \<Rightarrow> char" where
  "upper_char c = (case map_of (zip ascii_lowercase ascii_uppercase) c of None \<Rightarrow> c | Some d \<Rightarrow> d)"

definition lower_char :: "char \<Rightarrow> char" where
  "lower_char c = (case map_of (zip ascii_uppercase ascii_lowercase) c of None \<Rightarrow> c | Some d \<Rightarrow> d)"

text \<open>Python's ASCII whitespace: tab, line feed, vertical tab, form feed, carriage return,
  the four separators 0x1C..0x1F, and the space.\<close>

definition is_space :: "char \<Rightarrow> bool" where
  "is_space c =
     (c \<in> set [CHR 0x09, CHR 0x0A, CHR 0x0B, CHR 0x0C, CHR 0x0D,
                CHR 0x1C, CHR 0x1D, CHR 0x1E, CHR 0x1F, CHR '' ''])"

definition ascii_strip :: "string \<Rightarrow> string" where
  "ascii_strip s = rev (dropWhile is_space (rev (dropWhile is_space s)))"

definition ascii_upper :: "string \<Rightarrow> string" where
  "ascii_upper s = map upper_char s"

text \<open>\<open>p in s\<close> for strings: \<open>p\<close> occurs in \<open>s\<close> as a contiguous piece.\<close>

fun starts_with :: "string \<Rightarrow> string \<Rightarrow> bool" where
  "starts_with [] s = True"
| "starts_with (p # ps) [] = False"
| "starts_with (p # ps) (c # cs) = (p = c \<and> starts_with ps cs)"

fun str_contains :: "string \<Rightarrow> string \<Rightarrow> bool" where
  "str_contains p [] = (p = [])"
| "str_contains p (c # cs) = (starts_with p (c # cs) \<or> str_contains p cs)"

subsection \<open>\<open>categorize_bmi\<close>\<close>

definition categorize_bmi :: "real \<Rightarrow> string" where
  "categorize_bmi bmi =
     (if bmi < 18.5 then ''UNDERWEIGHT''
      else if 18.5 \<le> bmi \<and> bmi < 25 then ''NORMAL''
      else if 25 \<le> bmi \<and> bmi < 30 then ''OVERWEIGHT''
      else if 30 \<le> bmi \<and> bmi < 35 then ''OBESITY (CLASS 1)''
      else if 35 \<le> bmi \<and> bmi < 40 then ''OBESITY (CLASS 2)''
      else ''SEVERE/MORBID OBESITY'')"

subsection \<open>What depends on the installed pandas and Python\<close>

record runtime =
  writes_through :: bool
  gap_text_is_string :: bool
  str_strip :: "string \<Rightarrow> string"
  str_upper :: "string \<Rightarrow> string"

text \<open>\<open>pd.api.types.is_string_dtype\<close> of a column. A text column without a missing
  value is a string column for every pandas. (\<open>is_numeric_dtype\<close> holds of a column
  exactly when it is a \<open>NumCol\<close>.)\<close>

fun is_string_dtype :: "runtime \<Rightarrow> column \<Rightarrow> bool" where
  "is_string_dtype env (StrCol xs) = (gap_text_is_string env \<or> None \<notin> set xs)"
| "is_string_dtype env (NumCol xs) = False"

subsection \<open>\<open>load_and_preprocess_data\<close>\<close>

text \<open>\<open>series.dropna()\<close>, \<open>series.median()\<close> (missing values skipped; \<open>NaN\<close> when none is
  left) and \<open>series.fillna(v)\<close>.\<close>

definition dropna :: "'a option list \<Rightarrow> 'a list" where
  "dropna xs = map the (filter (\<lambda>x. x \<noteq> None) xs)"

definition median :: "real option list \<Rightarrow> real option" where
  "median xs =
     (let s = sort (dropna xs); n = length s
      in if n = 0 then None
         else if odd n then Some (s ! (n div 2))
         else Some ((s ! (n div 2 - 1) + s ! (n div 2)) / 2))"

definition fillna :: "'a option \<Rightarrow> 'a option list \<Rightarrow> 'a option list" where
  "fillna v xs = map (\<lambda>x. case x of None \<Rightarrow> v | Some y \<Rightarrow> Some y) xs"

text \<open>Lines 30-32: one step of the loop over the five numeric columns, taken when the
  column is in the frame and numeric. The filled series is \<open>df[col]\<close> itself, changed in
  place; the frame holds the new values only when that write goes through to it.\<close>

definition impute_median :: "runtime \<Rightarrow> string \<Rightarrow> dataframe \<Rightarrow> dataframe" where
  "impute_median env col df =
     (case map_of df col of
        Some (NumCol xs) \<Rightarrow>
          if writes_through env
          then AList.update col (NumCol (fillna (median xs) xs)) df
          else df
      | _ \<Rightarrow> df)"

definition numeric_cols :: "string list" where
  "numeric_cols = [''Age'', ''Number of meals per day'', ''Height in cm'', ''Weight'', ''BMI'']"

text \<open>Lines 34-36: \<open>.str.strip().str.upper()\<close> on every column that
  \<open>is_string_dtype\<close> accepts; a missing value stays missing, and a column that is not
  accepted is left as it was read.\<close>

fun strip_upper_col :: "runtime \<Rightarrow> column \<Rightarrow> column" where
  "strip_upper_col env (StrCol xs) =
     (if is_string_dtype env (StrCol xs)
      then StrCol (map (map_option (\<lambda>s. str_upper env (str_strip env s))) xs)
      else StrCol xs)"
| "strip_upper_col env (NumCol xs) = NumCol xs"

definition strip_upper_all :: "runtime \<Rightarrow> dataframe \<Rightarrow> dataframe" where
  "strip_upper_all env df = map (\<lambda>kc. (fst kc, strip_upper_col env (snd kc))) df"

text \<open>\<open>series.map(d)\<close> for a dict \<open>d\<close> with string keys: a value that is no key of \<open>d\<close>
  (any number, any missing value, any other string) maps to \<open>NaN\<close>.\<close>

fun series_map :: "(string \<times> int) list \<Rightarrow> column \<Rightarrow> real option list" where
  "series_map d (StrCol xs) =
     map (\<lambda>x. case x of None \<Rightarrow> None | Some s \<Rightarrow> map_option real_of_int (map_of d s)) xs"
| "series_map d (NumCol xs) = map (\<lambda>x. None) xs"

definition rank_col :: "(string \<times> int) list \<Rightarrow> column \<Rightarrow> column" where
  "rank_col d c = NumCol (fillna (Some 0) (series_map d c))"

text \<open>Lines 38-40. \<open>col\<close> is a column of \<open>df\<close> throughout the loop, so \<open>df[col]\<close> does not
  raise; the \<open>None\<close> branch is never taken.\<close>

definition consumption_cols :: "dataframe \<Rightarrow> string list" where
  "consumption_cols df = filter (str_contains ''Consumption Rate'') (columns df)"

definition add_rank :: "string \<Rightarrow> dataframe \<Rightarrow> dataframe" where
  "add_rank col df =
     (case map_of df col of
        Some c \<Rightarrow> AList.update (col @ ''_Rank'') (rank_col EATING_HABIT_RANKING c) df
      | None \<Rightarrow> df)"

text \<open>Lines 42-43.\<close>

definition add_activity_rank :: "dataframe \<Rightarrow> dataframe" where
  "add_activity_rank df =
     (case map_of df ''Physical Activity level'' of
        Some c \<Rightarrow> AList.update ''Activity_Rank'' (rank_col ACTIVITY_RANKING c) df
      | None \<Rightarrow> df)"

text \<open>Lines 29-45: the body of the \<open>try\<close> after the file is read.\<close>

definition preprocess :: "runtime \<Rightarrow> dataframe \<Rightarrow> dataframe" where
  "preprocess env df =
     (let df1 = fold (impute_median env) numeric_cols df;
          df2 = strip_upper_all env df1;
          df3 = fold add_rank (consumption_cols df2) df2
      in add_activity_rank df3)"

text \<open>
  What \<open>pd.read_csv\<close> did is an input of the model: it returned a frame or raised.
  Only \<open>FileNotFoundError\<close> is caught (line 46); the function then returns \<open>None\<close>.
  The decorator \<open>st.cache_data\<close> keeps the result for later runs and is not modelled.
\<close>

datatype read_result = Loaded dataframe | Raised exn

fun load_and_preprocess_data :: "runtime \<Rightarrow> read_result \<Rightarrow> exn + dataframe option" where
  "load_and_preprocess_data env (Loaded df) = Inr (Some (preprocess env df))"
| "load_and_preprocess_data env (Raised e) =
     (if e = FileNotFoundError then Inr None else Inl e)"

subsection \<open>\<open>find_best_match\<close>\<close>

record user_inputs =
  bmi :: real
  gender :: string
  activity :: string
  rice :: string
  beans :: string
  soft_drinks :: string
  snacks :: string
  fruits :: string
  veg :: string

text \<open>\<open>abs(cell - k)\<close> for a Python int \<open>k\<close>: a string operand raises \<open>TypeError\<close>,
  a missing value gives \<open>NaN\<close> (\<open>None\<close>).\<close>

fun abs_diff :: "cell \<Rightarrow> int \<Rightarrow> exn + real option" where
  "abs_diff (Num x) k = Inr (Some \<bar>x - real_of_int k\<bar>)"
| "abs_diff NaN k = Inr None"
| "abs_diff (Str s) k = Inl TypeError"

definition np_mul :: "real option \<Rightarrow> real \<Rightarrow> real option" where
  "np_mul a w = map_option (\<lambda>x. x * w) a"

definition np_add :: "real option \<Rightarrow> real option \<Rightarrow> real option" where
  "np_add a b = (case a of None \<Rightarrow> None | Some x \<Rightarrow> map_option (\<lambda>y. x + y) b)"

text \<open>One line of the scoring loop: \<open>abs(row[col] - k) * w\<close>.\<close>

definition rank_term :: "row \<Rightarrow> string \<Rightarrow> int \<Rightarrow> real \<Rightarrow> exn + real option" where
  "rank_term r col k w =
     bind_exn (row_get r col) (\<lambda>c. bind_exn (abs_diff c k) (\<lambda>d. Inr (np_mul d w)))"

text \<open>Lines 110-116: the body of the loop, for one row.\<close>

definition score_row :: "user_inputs \<Rightarrow> int \<Rightarrow> row \<Rightarrow> exn + real option" where
  "score_row u user_activity_rank r =
     bind_exn (rank_term r ''Activity_Rank'' user_activity_rank 2) (\<lambda>s0.
     bind_exn (rank_term r ''Rice Consumption Rate_Rank''
                 (dict_get EATING_HABIT_RANKING (rice u) 0) 1) (\<lambda>t1.
     bind_exn (rank_term r ''Beans Consumption Rate_Rank''
                 (dict_get EATING_HABIT_RANKING (beans u) 0) 1) (\<lambda>t2.
     bind_exn (rank_term r ''Soft drinks Consumption Rate_Rank''
                 (dict_get EATING_HABIT_RANKING (soft_drinks u) 0) 1.5) (\<lambda>t3.
     bind_exn (rank_term r ''Snacks Consumption Rate_Rank''
                 (dict_get EATING_HABIT_RANKING (snacks u) 0) 1.5) (\<lambda>t4.
     bind_exn (rank_term r ''Fruits Consumption Rate_Rank''
                 (dict_get EATING_HABIT_RANKING (fruits u) 0) 1) (\<lambda>t5.
     bind_exn (rank_term r ''Vegetables Consumption Rate_Rank''
                 (dict_get EATING_HABIT_RANKING (veg u) 0) 1) (\<lambda>t6.
     Inr (np_add (np_add (np_add (np_add (np_add (np_add s0 t1) t2) t3) t4) t5) t6))))))))"

text \<open>
  \<open>np.argmin\<close> on a non-empty sequence: the position of the first \<open>NaN\<close> if there is
  one, otherwise the first position of the least value. \<open>np_less a b\<close> says that \<open>a\<close>
  replaces the running minimum \<open>b\<close>.
\<close>

definition np_less :: "real option \<Rightarrow> real option \<Rightarrow> bool" where
  "np_less a b =
     (case b of None \<Rightarrow> False
      | Some y \<Rightarrow> (case a of None \<Rightarrow> True | Some x \<Rightarrow> x < y))"

fun argmin_loop :: "real option list \<Rightarrow> nat \<Rightarrow> nat \<Rightarrow> real option \<Rightarrow> nat" where
  "argmin_loop [] i best_i best = best_i"
| "argmin_loop (x # xs) i best_i best =
     (if np_less x best then argmin_loop xs (Suc i) i x
      else argmin_loop xs (Suc i) best_i best)"

fun argmin :: "real option list \<Rightarrow> nat" where
  "argmin (x # xs) = argmin_loop xs 1 0 x"
| "argmin [] = 0"

text \<open>Lines 103-106: the candidate rows.\<close>

definition candidates :: "dataframe \<Rightarrow> string \<Rightarrow> string \<Rightarrow> exn + dataframe" where
  "candidates df g c =
     bind_exn (getitem df ''Gender'') (\<lambda>gcol.
     bind_exn (getitem df ''BMI Category'') (\<lambda>ccol.
     Inr (bool_index df (map2 (\<and>) (col_eq gcol g) (col_eq ccol c)))))"

text \<open>Lines 119-123: the selection among scored candidates.\<close>

definition select_best :: "dataframe \<Rightarrow> real option list \<Rightarrow> row option" where
  "select_best cands scores =
     (if scores = [] then None else Some (iloc cands (argmin scores)))"

definition find_best_match :: "dataframe \<Rightarrow> user_inputs \<Rightarrow> exn + row option" where
  "find_best_match df u =
     (let user_bmi_category = categorize_bmi (bmi u);
          user_activity_rank = dict_get ACTIVITY_RANKING (activity u) 0
      in bind_exn (candidates df (gender u) user_bmi_category) (\<lambda>cands.
         if nrows cands = 0 then Inr None
         else bind_exn (mapM_exn (score_row u user_activity_rank) (iterrows cands)) (\<lambda>scores.
              Inr (select_best cands scores))))"

subsection \<open>\<open>get_user_input\<close>, \<open>display_results\<close> and \<open>main\<close>\<close>

text \<open>
  The page is the list of the Streamlit elements written to it, in order. The values
  that the sidebar widgets return are the argument \<open>sel\<close>. \<open>get_user_input\<close> reads the
  frame once, for the options of the gender box, \<open>df['Gender'].unique()\<close>, and Streamlit
  applies \<open>format_func\<close>, here \<open>x.title()\<close>, to every option: a missing value or a number
  among the options is a float, which has no such method. The other boxes take their
  options from the keys of the two dicts, which are strings. How Python prints a float
  inside an f-string is the parameter \<open>repr\<close>.
\<close>

datatype ui =
  Title string | Markdown string | Subheader string | Error string | Warning string
  | Success string | Info string | Write string | Expander string "ui list"

text \<open>Every value of the column is a string, so \<open>x.title()\<close> succeeds on each option.\<close>

fun options_have_title :: "column \<Rightarrow> bool" where
  "options_have_title (StrCol xs) = (None \<notin> set xs)"
| "options_have_title (NumCol xs) = (xs = [])"

definition get_user_input :: "dataframe \<Rightarrow> user_inputs \<Rightarrow> exn + user_inputs" where
  "get_user_input df sel =
     bind_exn (getitem df ''Gender'') (\<lambda>g.
       if options_have_title g then Inr sel else Inl AttributeError)"

text \<open>\<open>s.title()\<close>: a letter that follows a letter is lowered, any other letter is raised.\<close>

fun title_from :: "bool \<Rightarrow> string \<Rightarrow> string" where
  "title_from prev [] = []"
| "title_from prev (c # cs) =
     (if is_lower c \<or> is_upper c
      then (if prev then lower_char c else upper_char c) # title_from True cs
      else c # title_from False cs)"

definition str_title :: "string \<Rightarrow> string" where
  "str_title s = title_from False s"

text \<open>\<open>x.title()\<close> on a value of a row: a float (a number or \<open>NaN\<close>) has no such method.\<close>

fun cell_title :: "cell \<Rightarrow> exn + string" where
  "cell_title (Str s) = Inr (str_title s)"
| "cell_title (Num x) = Inl AttributeError"
| "cell_title NaN = Inl AttributeError"

text \<open>\<open>series.get(key, default)\<close> with a string default, and \<open>series.get(key)\<close>, whose
  default is \<open>None\<close>.\<close>

definition series_get :: "row \<Rightarrow> string \<Rightarrow> string \<Rightarrow> cell" where
  "series_get r key dflt = (case map_of r key of None \<Rightarrow> Str dflt | Some c \<Rightarrow> c)"

fun fmt :: "(real \<Rightarrow> string) \<Rightarrow> cell \<Rightarrow> string" where
  "fmt repr (Str s) = s"
| "fmt repr (Num x) = repr x"
| "fmt repr NaN = ''nan''"

definition fmt_get :: "(real \<Rightarrow> string) \<Rightarrow> row \<Rightarrow> string \<Rightarrow> string" where
  "fmt_get repr r key = (case map_of r key of None \<Rightarrow> ''None'' | Some c \<Rightarrow> fmt repr c)"

fun display_results :: "(real \<Rightarrow> string) \<Rightarrow> row option \<Rightarrow> exn + ui list" where
  "display_results repr None =
     Inr [Subheader ''Here is Your Personalized Advice'',
          Error (''Sorry, we couldn't find a suitable match in our dataset. ''
                 @ ''Please try adjusting your inputs.'')]"
| "display_results repr (Some best_match) =
     (let advice = series_get best_match ''Dietary advice given'' ''No specific advice available.'';
          risk = series_get best_match ''Malnutrition Risk Level'' ''Not determined.''
      in bind_exn (cell_title risk) (\<lambda>t.
         Inr [Subheader ''Here is Your Personalized Advice'',
              (if risk = Str ''HIGH RISK'' then Error (''**Malnutrition Risk:** '' @ t)
               else if risk = Str ''MEDIUM RISK'' then Warning (''**Malnutrition Risk:** '' @ t)
               else Success (''**Malnutrition Risk:** '' @ t)),
              Info (''**Dietary Advice:** '' @ fmt repr advice),
              Expander ''See Matched Profile Details''
                [Write (''**Gender**: '' @ fmt_get repr best_match ''Gender''),
                 Write (''**BMI Category**: '' @ fmt_get repr best_match ''BMI Category''),
                 Write (''**Activity Level**: ''
                        @ fmt_get repr best_match ''Physical Activity level''),
                 Write (''**Dietary Advice**: '' @ fmt repr advice),
                 Write (''**Malnutrition Risk**: '' @ fmt repr risk)]]))"

definition add_footer :: "ui list" where
  "add_footer =
     [Markdown ''<hr>'',
      Markdown ''<p style='text-align: center;'>Made by Wabara Adanma</p>'']"

definition page_head :: "ui list" where
  "page_head =
     [Title ([CHR 0xF0, CHR 0x9F, CHR 0x8D, CHR 0x8E] @ '' Personalized Nutrition Advisor''),
      Markdown (''Enter your details in the sidebar to get personalized dietary advice ''
                @ ''based on our dataset.'')]"

text \<open>\<open>main\<close>: \<open>button\<close> says whether "Get My Advice" was pressed in this run.\<close>

definition main ::
  "runtime \<Rightarrow> (real \<Rightarrow> string) \<Rightarrow> read_result \<Rightarrow> user_inputs \<Rightarrow> bool \<Rightarrow> exn + ui list" where
  "main env repr rd sel button =
     bind_exn (load_and_preprocess_data env rd) (\<lambda>loaded.
       case loaded of
         None \<Rightarrow>
           Inr (page_head @
                [Error (''Dataset file not found. Please make sure ''
                        @ '''Complete Secondary Data - Sheet1 (1).csv' ''
                        @ ''is in the same directory.'')])
       | Some df \<Rightarrow>
           bind_exn (get_user_input df sel) (\<lambda>user_inputs.
           bind_exn (if button
                     then bind_exn (find_best_match df user_inputs) (display_results repr)
                     else Inr []) (\<lambda>shown.
           Inr (page_head @ shown @ add_footer))))"

subsection \<open>The ordinal mappings as the specification words them\<close>

text \<open>NEVER=0, RARELY=1, OFTEN=2, DAILY=3; LIGHT ACTIVE=0, MODERATELY ACTIVE=1, ACTIVE=2,
  VERY ACTIVE=3; an unknown or missing value (\<open>None\<close>) ranks 0.\<close>

definition spec_frequency_rank :: "string option \<Rightarrow> int" where
  "spec_frequency_rank x =
     (if x = Some ''NEVER'' then 0 else if x = Some ''RARELY'' then 1
      else if x = Some ''OFTEN'' then 2 else if x = Some ''DAILY'' then 3 else 0)"

definition spec_activity_rank :: "string option \<Rightarrow> int" where
  "spec_activity_rank x =
     (if x = Some ''LIGHT ACTIVE'' then 0 else if x = Some ''MODERATELY ACTIVE'' then 1
      else if x = Some ''ACTIVE'' then 2 else if x = Some ''VERY ACTIVE'' then 3 else 0)"

subsection \<open>Predicates used to state the properties\<close>

text \<open>Position \<open>i\<close> holds the least value of \<open>rs\<close>, and no earlier position holds it.\<close>

definition first_min :: "real list \<Rightarrow> nat \<Rightarrow> bool" where
  "first_min rs i =
     (i < length rs \<and> (\<forall>j < length rs. rs ! i \<le> rs ! j) \<and> (\<forall>j < i. rs ! i < rs ! j))"

text \<open>The stored gender of a row is \<open>g\<close> and its stored BMI category is \<open>c\<close>.\<close>

definition row_matches :: "string \<Rightarrow> string \<Rightarrow> row \<Rightarrow> bool" where
  "row_matches g c r =
     (map_of r ''Gender'' = Some (Str g) \<and> map_of r ''BMI Category'' = Some (Str c))"

text \<open>Column \<open>k\<close> of the frame is numeric, as long as the frame, without a missing value,
  and holds only the ranks 0, 1, 2 and 3.\<close>

definition has_rank_column :: "dataframe \<Rightarrow> string \<Rightarrow> bool" where
  "has_rank_column df k =
     (\<exists>rs. map_of df k = Some (NumCol rs) \<and> length rs = nrows df \<and>
           set rs \<subseteq> {Some 0, Some 1, Some 2, Some 3})"

text \<open>The seven rank fields of a row are numbers; the number in a field.\<close>

definition rank_fields :: "string list" where
  "rank_fields =
     [''Activity_Rank'', ''Rice Consumption Rate_Rank'', ''Beans Consumption Rate_Rank'',
      ''Soft drinks Consumption Rate_Rank'', ''Snacks Consumption Rate_Rank'',
      ''Fruits Consumption Rate_Rank'', ''Vegetables Consumption Rate_Rank'']"

definition ranked_row :: "row \<Rightarrow> bool" where
  "ranked_row r = list_all (\<lambda>k. \<exists>x. map_of r k = Some (Num x)) rank_fields"

definition num_field :: "row \<Rightarrow> string \<Rightarrow> real" where
  "num_field r k = (case map_of r k of Some (Num x) \<Rightarrow> x | _ \<Rightarrow> 0)"

text \<open>The columns that \<open>find_best_match\<close> reads, directly or through their ranks.\<close>

definition required_columns :: "string list" where
  "required_columns =
     [''Gender'', ''BMI Category'', ''Physical Activity level'', ''Rice Consumption Rate'',
      ''Beans Consumption Rate'', ''Soft drinks Consumption Rate'', ''Snacks Consumption Rate'',
      ''Fruits Consumption Rate'', ''Vegetables Consumption Rate'']"

subsection \<open>The score as the specification words it\<close>

text \<open>The weighted sum of 4.4, with \<open>rank(level)\<close> the ordinal mapping of the
  specification applied to the user's seven selections.\<close>

definition spec_score :: "user_inputs \<Rightarrow> row \<Rightarrow> real" where
  "spec_score u r =
     2.0 * \<bar>num_field r ''Activity_Rank'' - real_of_int (spec_activity_rank (Some (activity u)))\<bar>
     + 1.0 * \<bar>num_field r ''Rice Consumption Rate_Rank''
              - real_of_int (spec_frequency_rank (Some (rice u)))\<bar>
     + 1.0 * \<bar>num_field r ''Beans Consumption Rate_Rank''
              - real_of_int (spec_frequency_rank (Some (beans u)))\<bar>
     + 1.5 * \<bar>num_field r ''Soft drinks Consumption Rate_Rank''
              - real_of_int (spec_frequency_rank (Some (soft_drinks u)))\<bar>
     + 1.5 * \<bar>num_field r ''Snacks Consumption Rate_Rank''
              - real_of_int (spec_frequency_rank (Some (snacks u)))\<bar>
     + 1.0 * \<bar>num_field r ''Fruits Consumption Rate_Rank''
              - real_of_int (spec_frequency_rank (Some (fruits u)))\<bar>
     + 1.0 * \<bar>num_field r ''Vegetables Consumption Rate_Rank''
              - real_of_int (spec_frequency_rank (Some (veg u)))\<bar>"

subsection \<open>Example data\<close>

text \<open>Three runtimes, for text in ASCII: pandas 1 (the write goes through, every text
  column is a string column), pandas 2 (the write goes through, a text column with a
  missing value is not a string column) and a pandas with copy-on-write, as pandas 3
  has it (the write is lost). The examples use the third on numeric columns and on text
  columns without a missing value only, where its second field plays no part.\<close>

definition pandas_1 :: runtime where
  "pandas_1 = \<lparr>writes_through = True, gap_text_is_string = True,
                str_strip = ascii_strip, str_upper = ascii_upper\<rparr>"

definition pandas_2 :: runtime where
  "pandas_2 = \<lparr>writes_through = True, gap_text_is_string = False,
                str_strip = ascii_strip, str_upper = ascii_upper\<rparr>"

definition pandas_cow :: runtime where
  "pandas_cow = \<lparr>writes_through = False, gap_text_is_string = True,
                str_strip = ascii_strip, str_upper = ascii_upper\<rparr>"


text \<open>A raw frame as read from a file: an age is missing, no weight was recorded at all,
  the text is in mixed case with stray blanks, and the last row stores the category
  Normal beside a BMI of 50.\<close>

definition example_raw :: dataframe where
  "example_raw =
     [(''Age'', NumCol [Some 20, None, Some 40, Some 30, Some 50]),
      (''Weight'', NumCol [None, None, None, None, None]),
      (''BMI'', NumCol [Some 22, Some 21, Some 23, Some 24, Some 50]),
      (''BMI Category'',
       StrCol [Some ''Normal'', Some ''Normal'', Some ''Normal'', Some '' normal'', Some ''Normal'']),
      (''Physical Activity level'',
       StrCol [Some ''Active'', Some ''Very active '', None, Some ''Active'', Some ''Light Active'']),
      (''Rice Consumption Rate'',
       StrCol [Some ''Often'', Some ''often'', Some ''Daily'', None, Some ''sometimes''])]"



text \<open>A normalised frame, a frame of four candidates, one row and one user.\<close>

definition example_frame :: dataframe where
  "example_frame =
     [(''Gender'', StrCol [Some ''MALE'', Some ''FEMALE'', Some ''FEMALE'', None, Some ''FEMALE'']),
      (''BMI Category'',
       StrCol [Some ''NORMAL'', Some ''NORMAL'', Some ''OVERWEIGHT'', Some ''NORMAL'',
               Some ''NORMAL'']),
      (''Dietary advice given'',
       StrCol [Some ''EAT LESS'', Some ''DRINK WATER'', Some ''INCREASE FIBER'', None,
               Some ''MORE BEANS''])]"

definition example_candidates :: dataframe where
  "example_candidates =
     [(''Gender'', StrCol [Some ''FEMALE'', Some ''FEMALE'', Some ''FEMALE'', Some ''FEMALE'']),
      (''Dietary advice given'',
       StrCol [Some ''DRINK WATER'', Some ''INCREASE FIBER'', Some ''MORE BEANS'', Some ''REST''])]"

definition example_row :: row where
  "example_row =
     [(''Gender'', Str ''FEMALE''), (''BMI Category'', Str ''NORMAL''),
      (''Activity_Rank'', Num 0), (''Rice Consumption Rate_Rank'', Num 3),
      (''Beans Consumption Rate_Rank'', Num 2), (''Soft drinks Consumption Rate_Rank'', Num 0),
      (''Snacks Consumption Rate_Rank'', Num 1), (''Fruits Consumption Rate_Rank'', Num 2),
      (''Vegetables Consumption Rate_Rank'', Num 2)]"

definition example_user :: user_inputs where
  "example_user =
     \<lparr>bmi = 22, gender = ''FEMALE'', activity = ''ACTIVE'', rice = ''OFTEN'', beans = ''OFTEN'',
      soft_drinks = ''OFTEN'', snacks = ''OFTEN'', fruits = ''OFTEN'', veg = ''sometimes''\<rparr>"

text \<open>A normalised frame with every column the match reads: one man and two women of
  normal weight; the second woman has the ranks of \<open>scenario_user\<close>, the first eats rice
  daily.\<close>

definition scenario_frame :: dataframe where
  "scenario_frame =
     [(''Gender'', StrCol [Some ''MALE'', Some ''FEMALE'', Some ''FEMALE'']),
      (''BMI Category'', StrCol [Some ''NORMAL'', Some ''NORMAL'', Some ''NORMAL'']),
      (''Dietary advice given'',
       StrCol [Some ''EAT LESS'', Some ''DRINK WATER'', Some ''INCREASE FIBER'']),
      (''Malnutrition Risk Level'',
       StrCol [Some ''LOW RISK'', Some ''HIGH RISK'', Some ''MEDIUM RISK'']),
      (''Rice Consumption Rate_Rank'', NumCol [Some 2, Some 3, Some 2]),
      (''Beans Consumption Rate_Rank'', NumCol [Some 2, Some 2, Some 2]),
      (''Soft drinks Consumption Rate_Rank'', NumCol [Some 2, Some 2, Some 2]),
      (''Snacks Consumption Rate_Rank'', NumCol [Some 2, Some 2, Some 2]),
      (''Fruits Consumption Rate_Rank'', NumCol [Some 2, Some 2, Some 2]),
      (''Vegetables Consumption Rate_Rank'', NumCol [Some 2, Some 2, Some 2]),
      (''Activity_Rank'', NumCol [Some 2, Some 2, Some 2])]"

definition scenario_user :: user_inputs where
  "scenario_user =
     \<lparr>bmi = 22, gender = ''FEMALE'', activity = ''ACTIVE'', rice = ''OFTEN'', beans = ''OFTEN'',
      soft_drinks = ''OFTEN'', snacks = ''OFTEN'', fruits = ''OFTEN'', veg = ''OFTEN''\<rparr>"

text \<open>A raw frame with every required column; one activity level is missing.\<close>

definition example_dataset :: dataframe where
  "example_dataset =
     [(''Gender'', StrCol [Some ''female'', Some ''Male'', Some ''Female '']),
      (''BMI Category'', StrCol [Some ''Normal'', Some ''Normal'', Some ''Normal'']),
      (''Physical Activity level'', StrCol [Some ''Active'', None, Some ''Very active'']),
      (''Rice Consumption Rate'', StrCol [Some ''Often'', Some ''Often'', Some ''Daily'']),
      (''Beans Consumption Rate'', StrCol [Some ''Often'', Some ''Often'', Some ''Often'']),
      (''Soft drinks Consumption Rate'', StrCol [Some ''Often'', Some ''Never'', Some ''Often'']),
      (''Snacks Consumption Rate'', StrCol [Some ''Often'', Some ''Often'', Some ''Often'']),
      (''Fruits Consumption Rate'', StrCol [Some ''Often'', Some ''Often'', Some ''Often'']),
      (''Vegetables Consumption Rate'', StrCol [Some ''Often'', Some ''Often'', Some ''Often''])]"

section \<open>Properties\<close>

subsection \<open>The categorizer\<close>

text \<open>
  C2. \<open>categorize_bmi\<close> is defined on every real number and follows the half-open
  boundaries: below 18.5 underweight, from 18.5 up to 25 normal, from 25 up to 30
  overweight, from 30 up to 35 obesity class 1, from 35 up to 40 obesity class 2, and from
  40 on the terminal category; a boundary value belongs to the higher category.
\<close>

theorem categorize_bmi_boundaries:
  "(b < 18.5 \<longrightarrow> categorize_bmi b = ''UNDERWEIGHT'') \<and>
   (18.5 \<le> b \<and> b < 25 \<longrightarrow> categorize_bmi b = ''NORMAL'') \<and>
   (25 \<le> b \<and> b < 30 \<longrightarrow> categorize_bmi b = ''OVERWEIGHT'') \<and>
   (30 \<le> b \<and> b < 35 \<longrightarrow> categorize_bmi b = ''OBESITY (CLASS 1)'') \<and>
   (35 \<le> b \<and> b < 40 \<longrightarrow> categorize_bmi b = ''OBESITY (CLASS 2)'') \<and>
   (40 \<le> b \<longrightarrow> categorize_bmi b = ''SEVERE/MORBID OBESITY'') \<and>
   categorize_bmi 18.5 = ''NORMAL'' \<and> categorize_bmi 18.49 = ''UNDERWEIGHT'' \<and>
   categorize_bmi 24.999 = ''NORMAL'' \<and> categorize_bmi 40.0 = ''SEVERE/MORBID OBESITY''"
  by (simp add: categorize_bmi_def)

theorem categorize_bmi_boundaries_witness:
  "categorize_bmi (-3) = ''UNDERWEIGHT'' \<and> categorize_bmi 22 = ''NORMAL'' \<and>
   categorize_bmi 25 = ''OVERWEIGHT'' \<and> categorize_bmi 30 = ''OBESITY (CLASS 1)'' \<and>
   categorize_bmi 35 = ''OBESITY (CLASS 2)'' \<and> categorize_bmi 1000 = ''SEVERE/MORBID OBESITY''"
  using categorize_bmi_boundaries [of "-3"] categorize_bmi_boundaries [of 22]
    categorize_bmi_boundaries [of 25] categorize_bmi_boundaries [of 30]
    categorize_bmi_boundaries [of 35] categorize_bmi_boundaries [of 1000]
  by simp

subsection \<open>The ordinal mappings\<close>

lemma dict_get_eating: "dict_get EATING_HABIT_RANKING s 0 = spec_frequency_rank (Some s)"
  by (simp add: dict_get_def EATING_HABIT_RANKING_def spec_frequency_rank_def)

lemma dict_get_activity: "dict_get ACTIVITY_RANKING s 0 = spec_activity_rank (Some s)"
  by (simp add: dict_get_def ACTIVITY_RANKING_def spec_activity_rank_def)

lemma rank_col_eating:
  "rank_col EATING_HABIT_RANKING (StrCol xs) =
     NumCol (map (\<lambda>x. Some (real_of_int (spec_frequency_rank x))) xs)"
  by (auto simp: rank_col_def fillna_def EATING_HABIT_RANKING_def spec_frequency_rank_def
      split: option.splits)

lemma rank_col_activity:
  "rank_col ACTIVITY_RANKING (StrCol xs) =
     NumCol (map (\<lambda>x. Some (real_of_int (spec_activity_rank x))) xs)"
  by (auto simp: rank_col_def fillna_def ACTIVITY_RANKING_def spec_activity_rank_def
      split: option.splits)

lemma rank_col_num: "rank_col d (NumCol ys) = NumCol (map (\<lambda>y. Some 0) ys)"
  by (simp add: rank_col_def fillna_def)

subsection \<open>The scorer\<close>

text \<open>
  C3. For a candidate row whose seven rank fields are numbers, and any user profile, the
  score is the weighted sum of the absolute rank differences, with weight 2.0 for
  activity, 1.5 for soft drinks and for snacks and 1.0 for rice, beans, fruits and
  vegetables; it is a real number that is not negative.
\<close>

theorem score_row_weighted_sum:
  assumes "map_of r ''Activity_Rank'' = Some (Num a)"
    and "map_of r ''Rice Consumption Rate_Rank'' = Some (Num ri)"
    and "map_of r ''Beans Consumption Rate_Rank'' = Some (Num be)"
    and "map_of r ''Soft drinks Consumption Rate_Rank'' = Some (Num so)"
    and "map_of r ''Snacks Consumption Rate_Rank'' = Some (Num sn)"
    and "map_of r ''Fruits Consumption Rate_Rank'' = Some (Num fr)"
    and "map_of r ''Vegetables Consumption Rate_Rank'' = Some (Num ve)"
  shows "\<exists>s. score_row u (dict_get ACTIVITY_RANKING (activity u) 0) r = Inr (Some s) \<and>
           s = 2.0 * \<bar>a - real_of_int (dict_get ACTIVITY_RANKING (activity u) 0)\<bar>
             + 1.0 * \<bar>ri - real_of_int (dict_get EATING_HABIT_RANKING (rice u) 0)\<bar>
             + 1.0 * \<bar>be - real_of_int (dict_get EATING_HABIT_RANKING (beans u) 0)\<bar>
             + 1.5 * \<bar>so - real_of_int (dict_get EATING_HABIT_RANKING (soft_drinks u) 0)\<bar>
             + 1.5 * \<bar>sn - real_of_int (dict_get EATING_HABIT_RANKING (snacks u) 0)\<bar>
             + 1.0 * \<bar>fr - real_of_int (dict_get EATING_HABIT_RANKING (fruits u) 0)\<bar>
             + 1.0 * \<bar>ve - real_of_int (dict_get EATING_HABIT_RANKING (veg u) 0)\<bar> \<and>
           0 \<le> s"
  using assms
  by (simp add: score_row_def rank_term_def row_get_def bind_exn_def np_mul_def np_add_def)

theorem score_row_weighted_sum_witness:
  "score_row example_user (dict_get ACTIVITY_RANKING (activity example_user) 0) example_row =
     Inr (Some 11.5)"
  using score_row_weighted_sum [of example_row 0 3 2 0 1 2 2 example_user]
  by (auto simp: example_row_def example_user_def dict_get_def ACTIVITY_RANKING_def
      EATING_HABIT_RANKING_def)

subsection \<open>The selector\<close>

lemma argmin_loop_first_min:
  "first_min pre bi \<Longrightarrow>
   first_min (pre @ xs) (argmin_loop (map Some xs) (length pre) bi (Some (pre ! bi)))"
proof (induction xs arbitrary: pre bi)
  case Nil
  then show ?case by simp
next
  case (Cons x xs)
  show ?case
  proof (cases "x < pre ! bi")
    case True
    have fm: "first_min (pre @ [x]) (length pre)"
      using Cons.prems True by (fastforce simp: first_min_def nth_append)
    from Cons.IH [OF fm] True show ?thesis
      by (simp add: np_less_def)
  next
    case False
    have fm: "first_min (pre @ [x]) bi"
      using Cons.prems False by (auto simp: first_min_def nth_append less_Suc_eq)
    have "(pre @ [x]) ! bi = pre ! bi"
      using Cons.prems by (simp add: first_min_def nth_append)
    with Cons.IH [OF fm] False show ?thesis
      by (simp add: np_less_def)
  qed
qed

lemma argmin_first_min: "rs \<noteq> [] \<Longrightarrow> first_min rs (argmin (map Some rs))"
proof (cases rs)
  case Nil
  assume "rs \<noteq> []"
  with Nil show ?thesis by simp
next
  case (Cons r rest)
  have "first_min [r] 0" by (simp add: first_min_def)
  from argmin_loop_first_min [OF this, of rest] Cons show ?thesis by simp
qed

text \<open>With or without \<open>NaN\<close> among the scores, the position returned is one of the
  sequence, so \<open>iloc\<close> is never asked for a row out of range.\<close>

lemma argmin_loop_in_range: "bi < i \<Longrightarrow> argmin_loop xs i bi b < i + length xs"
proof (induction xs arbitrary: i bi b)
  case Nil
  then show ?case by simp
next
  case (Cons x xs)
  have new: "argmin_loop xs (Suc i) i x < Suc i + length xs"
    by (rule Cons.IH) simp
  have old: "argmin_loop xs (Suc i) bi b < Suc i + length xs"
    using Cons.prems by (intro Cons.IH) simp
  show ?case using new old by simp
qed

lemma argmin_in_range: "xs \<noteq> [] \<Longrightarrow> argmin xs < length xs"
proof (cases xs)
  case Nil
  assume "xs \<noteq> []"
  with Nil show ?thesis by simp
next
  case (Cons x rest)
  show ?thesis
    using argmin_loop_in_range [of 0 "Suc 0" rest x] Cons by simp
qed

lemma iterrows_nth: "i < nrows df \<Longrightarrow> iterrows df ! i = iloc df i"
  by (simp add: iterrows_def)

lemma length_iterrows: "length (iterrows df) = nrows df"
  by (simp add: iterrows_def)

text \<open>
  C1. Given a non-empty sequence of candidates and their scores, the selector returns the
  candidate at the position of the least score, and of several positions with that score
  the first; for the scores 3, 1, 1, 4 that is position 1.
\<close>

theorem select_best_first_minimum:
  "rs \<noteq> [] \<Longrightarrow> length rs = nrows cands \<Longrightarrow>
   select_best cands (map Some rs) = Some (iterrows cands ! argmin (map Some rs)) \<and>
   argmin (map Some rs) < length rs \<and>
   (\<forall>j < length rs. rs ! argmin (map Some rs) \<le> rs ! j) \<and>
   (\<forall>j < argmin (map Some rs). rs ! argmin (map Some rs) < rs ! j) \<and>
   argmin (map Some [3, 1, 1, 4]) = 1"
proof -
  assume ne: "rs \<noteq> []" and len: "length rs = nrows cands"
  have fm: "first_min rs (argmin (map Some rs))" by (rule argmin_first_min [OF ne])
  then have "argmin (map Some rs) < nrows cands" using len by (simp add: first_min_def)
  then have "iterrows cands ! argmin (map Some rs) = iloc cands (argmin (map Some rs))"
    by (rule iterrows_nth)
  moreover have "argmin (map Some [3, 1, 1, 4]) = 1" by (simp add: np_less_def)
  ultimately show ?thesis using ne fm by (simp add: select_best_def first_min_def)
qed

theorem select_best_first_minimum_witness:
  "[3, 1, 1, 4] \<noteq> ([] :: real list) \<and> length [3, 1, 1, 4 :: real] = nrows example_candidates \<and>
   select_best example_candidates (map Some [3, 1, 1, 4]) =
     Some [(''Gender'', Str ''FEMALE''), (''Dietary advice given'', Str ''INCREASE FIBER'')]"
  using select_best_first_minimum [of "[3, 1, 1, 4]" example_candidates]
  by (simp add: example_candidates_def nrows_def iterrows_def iloc_def)

subsection \<open>The candidate filter\<close>

lemma map_of_map_snd:
  "map_of (map (\<lambda>kc. (fst kc, f (snd kc))) df) k = map_option f (map_of df k)"
  by (induction df) auto

lemma map_of_iloc: "map_of (iloc df i) k = map_option (\<lambda>c. cell_at c i) (map_of df k)"
  unfolding iloc_def by (rule map_of_map_snd)

lemma cell_at_take_col: "j < length idx \<Longrightarrow> cell_at (take_col idx c) j = cell_at c (idx ! j)"
  by (cases c) simp_all

lemma col_len_take_col: "col_len (take_col idx c) = length idx"
  by (cases c) simp_all

lemma iloc_bool_index:
  "j < length (nonzero m) \<Longrightarrow> iloc (bool_index df m) j = iloc df (nonzero m ! j)"
  by (simp add: iloc_def bool_index_def cell_at_take_col)

lemma nrows_bool_index: "df \<noteq> [] \<Longrightarrow> nrows (bool_index df m) = length (nonzero m)"
  by (cases df) (auto simp: nrows_def bool_index_def col_len_take_col)

lemma bool_index_columns: "columns (bool_index df m) = columns df"
  by (simp add: bool_index_def columns_def comp_def)

lemma iterrows_bool_index:
  assumes "df \<noteq> []"
  shows "iterrows (bool_index df m) = map (iloc df) (nonzero m)"
proof -
  have "iterrows (bool_index df m) = map (\<lambda>j. iloc df (nonzero m ! j)) [0..<length (nonzero m)]"
    using assms by (simp add: iterrows_def nrows_bool_index iloc_bool_index)
  also have "\<dots> = map (iloc df) (map (\<lambda>j. nonzero m ! j) [0..<length (nonzero m)])"
    by simp
  also have "\<dots> = map (iloc df) (nonzero m)"
    by (simp only: map_nth)
  finally show ?thesis .
qed

lemma col_eq_length: "length (col_eq c s) = col_len c"
  by (cases c) simp_all

lemma col_eq_nth: "i < col_len c \<Longrightarrow> col_eq c s ! i = (cell_at c i = Str s)"
  by (cases c) (auto split: option.splits)

lemma wf_df_lookup_len: "wf_df df \<Longrightarrow> map_of df k = Some c \<Longrightarrow> col_len c = nrows df"
  by (auto simp: wf_df_def dest!: map_of_SomeD)

lemma columns_lookup: "k \<in> set (columns df) \<Longrightarrow> \<exists>c. map_of df k = Some c"
  by (cases "map_of df k") (auto simp: columns_def map_of_eq_None_iff)

lemma lookup_in_columns: "map_of df k = Some c \<Longrightarrow> k \<in> set (columns df)"
  by (auto simp: columns_def dest!: map_of_SomeD intro: rev_image_eqI)

lemma candidates_rows:
  assumes wf: "wf_df df"
    and g: "map_of df ''Gender'' = Some gcol"
    and c: "map_of df ''BMI Category'' = Some ccol"
  shows "candidates df gv cv =
           Inr (bool_index df (map2 (\<and>) (col_eq gcol gv) (col_eq ccol cv)))"
    and "iterrows (bool_index df (map2 (\<and>) (col_eq gcol gv) (col_eq ccol cv))) =
           filter (row_matches gv cv) (iterrows df)"
proof -
  let ?m = "map2 (\<and>) (col_eq gcol gv) (col_eq ccol cv)"
  show "candidates df gv cv = Inr (bool_index df ?m)"
    using g c by (simp add: candidates_def getitem_def bind_exn_def)
  have ne: "df \<noteq> []" using g by auto
  have lg: "col_len gcol = nrows df" and lc: "col_len ccol = nrows df"
    using wf g c by (auto dest: wf_df_lookup_len)
  have len: "length ?m = nrows df" by (simp add: col_eq_length lg lc)
  have nth: "?m ! i = row_matches gv cv (iloc df i)" if "i < nrows df" for i
    using that g c lg lc
    by (simp add: row_matches_def map_of_iloc col_eq_length col_eq_nth)
  have "filter (row_matches gv cv) (iterrows df) =
          map (iloc df) (filter (\<lambda>i. row_matches gv cv (iloc df i)) [0..<nrows df])"
    by (simp add: iterrows_def filter_map comp_def)
  also have "filter (\<lambda>i. row_matches gv cv (iloc df i)) [0..<nrows df] = nonzero ?m"
    unfolding nonzero_def len by (rule filter_cong) (auto simp: nth)
  finally show "iterrows (bool_index df ?m) = filter (row_matches gv cv) (iterrows df)"
    using iterrows_bool_index [OF ne, of ?m] by simp
qed

lemma candidates_filter:
  assumes "wf_df df"
    and "''Gender'' \<in> set (columns df)"
    and "''BMI Category'' \<in> set (columns df)"
  shows "\<exists>cands. candidates df g c = Inr cands \<and>
           iterrows cands = filter (row_matches g c) (iterrows df) \<and>
           columns cands = columns df"
proof -
  obtain gcol where gcol: "map_of df ''Gender'' = Some gcol"
    using assms(2) columns_lookup by blast
  obtain ccol where ccol: "map_of df ''BMI Category'' = Some ccol"
    using assms(3) columns_lookup by blast
  show ?thesis
    using candidates_rows [OF assms(1) gcol ccol, of g c] by (simp add: bool_index_columns)
qed

lemma example_frame_wf: "wf_df example_frame"
  by (simp add: wf_df_def example_frame_def columns_def nrows_def)

lemma example_frame_columns:
  "''Gender'' \<in> set (columns example_frame)" "''BMI Category'' \<in> set (columns example_frame)"
  by (simp_all add: example_frame_def columns_def)

text \<open>
  C4. For a dataset with a gender and a BMI category column, any gender \<open>g\<close> and any
  category \<open>c\<close>, the candidate filter does not fail and returns, with all columns kept,
  exactly the rows whose stored gender is \<open>g\<close> and whose stored category is \<open>c\<close>, in the
  order of the dataset; the result may be empty.
\<close>

theorem candidates_exact_subsequence:
  assumes "wf_df df"
    and "''Gender'' \<in> set (columns df)"
    and "''BMI Category'' \<in> set (columns df)"
  shows "\<exists>cands. candidates df g c = Inr cands \<and>
           iterrows cands = filter (row_matches g c) (iterrows df) \<and>
           columns cands = columns df"
  using assms by (rule candidates_filter)

theorem candidates_exact_subsequence_witness:
  "wf_df example_frame \<and> ''Gender'' \<in> set (columns example_frame) \<and>
   ''BMI Category'' \<in> set (columns example_frame) \<and>
   (\<exists>cands. candidates example_frame ''FEMALE'' ''NORMAL'' = Inr cands \<and>
      iterrows cands = [iloc example_frame 1, iloc example_frame 4])"
proof -
  have "filter (row_matches ''FEMALE'' ''NORMAL'') (iterrows example_frame) =
          [iloc example_frame 1, iloc example_frame 4]"
    by (simp add: row_matches_def iterrows_def iloc_def example_frame_def nrows_def)
  then show ?thesis
    using example_frame_wf example_frame_columns
      candidates_exact_subsequence [OF example_frame_wf example_frame_columns,
        of "''FEMALE''" "''NORMAL''"]
    by auto
qed

subsection \<open>No candidates\<close>

lemma no_candidates_none:
  assumes "wf_df df"
    and "''Gender'' \<in> set (columns df)"
    and "''BMI Category'' \<in> set (columns df)"
    and "\<forall>r \<in> set (iterrows df). \<not> row_matches (gender u) (categorize_bmi (bmi u)) r"
  shows "find_best_match df u = Inr None"
proof -
  obtain cands where cands: "candidates df (gender u) (categorize_bmi (bmi u)) = Inr cands"
      "iterrows cands = filter (row_matches (gender u) (categorize_bmi (bmi u))) (iterrows df)"
    using candidates_filter [OF assms(1-3)] by blast
  have "iterrows cands = []" using cands(2) assms(4) by (simp add: filter_empty_conv)
  then have "nrows cands = 0" using length_iterrows [of cands] by simp
  then show ?thesis using cands(1) by (simp add: find_best_match_def bind_exn_def)
qed

text \<open>
  C6. When no row of the dataset has the user's gender together with the category of the
  user's BMI, the match does not raise and returns \<open>None\<close>, which is no row and carries no
  field; shown to the user, it is the heading and one message, and nothing of any
  profile.
\<close>

theorem no_candidates_is_no_match:
  assumes "wf_df df"
    and "''Gender'' \<in> set (columns df)"
    and "''BMI Category'' \<in> set (columns df)"
    and "\<forall>r \<in> set (iterrows df). \<not> row_matches (gender u) (categorize_bmi (bmi u)) r"
  shows "find_best_match df u = Inr None \<and>
         bind_exn (find_best_match df u) (display_results repr) =
           Inr [Subheader ''Here is Your Personalized Advice'',
                Error (''Sorry, we couldn't find a suitable match in our dataset. ''
                       @ ''Please try adjusting your inputs.'')]"
  using no_candidates_none [OF assms] by (simp add: bind_exn_def)

theorem no_candidates_is_no_match_witness:
  "wf_df example_frame \<and> ''Gender'' \<in> set (columns example_frame) \<and>
   ''BMI Category'' \<in> set (columns example_frame) \<and>
   find_best_match example_frame (example_user\<lparr>bmi := 31\<rparr>) = Inr None"
proof -
  have none: "\<forall>r \<in> set (iterrows example_frame).
      \<not> row_matches (gender (example_user\<lparr>bmi := 31\<rparr>))
          (categorize_bmi (bmi (example_user\<lparr>bmi := 31\<rparr>))) r"
    by (simp add: row_matches_def iterrows_def iloc_def example_frame_def nrows_def
        example_user_def categorize_bmi_def)
  show ?thesis
    using example_frame_wf example_frame_columns
      no_candidates_is_no_match [OF example_frame_wf example_frame_columns none]
    by simp
qed

subsection \<open>The BMI enters the match through its category only\<close>

lemma score_row_ignores_bmi: "score_row (u\<lparr>bmi := b\<rparr>) k = score_row u k"
  by (rule ext) (simp add: score_row_def)

text \<open>The match on the scenario: the man is filtered out, the first woman scores 1, the
  second scores 0 and is returned.\<close>

lemma scenario_match:
  "find_best_match scenario_frame scenario_user = Inr (Some (iloc scenario_frame 2))"
  by (simp add: find_best_match_def candidates_def getitem_def bind_exn_def scenario_frame_def
      scenario_user_def categorize_bmi_def dict_get_def ACTIVITY_RANKING_def
      EATING_HABIT_RANKING_def bool_index_def nonzero_def nrows_def iterrows_def iloc_def
      score_row_def rank_term_def row_get_def np_mul_def np_add_def select_best_def np_less_def)

text \<open>
  C10. Two user profiles that differ in the BMI only, with both BMI values in the same
  category, get the same result from the match on every dataset.
\<close>

theorem find_best_match_bmi_only_through_category:
  "categorize_bmi (bmi u) = categorize_bmi b \<Longrightarrow>
   find_best_match df (u\<lparr>bmi := b\<rparr>) = find_best_match df u"
  by (simp add: find_best_match_def score_row_ignores_bmi cong: if_cong)

theorem find_best_match_bmi_only_through_category_witness:
  "categorize_bmi (bmi scenario_user) = categorize_bmi 24.9 \<and>
   find_best_match scenario_frame (scenario_user\<lparr>bmi := 24.9\<rparr>) =
     Inr (Some (iloc scenario_frame 2))"
proof -
  have "categorize_bmi (bmi scenario_user) = categorize_bmi 24.9"
    by (simp add: scenario_user_def categorize_bmi_def)
  then show ?thesis
    using find_best_match_bmi_only_through_category [of scenario_user "24.9" scenario_frame]
      scenario_match
    by simp
qed

subsection \<open>The normalizer: frames stay well formed\<close>

lemma set_alist_update: "set (AList.update k v al) \<subseteq> insert (k, v) (set al)"
  by (induction al) auto

lemma nrows_update:
  "col_len c = nrows df \<Longrightarrow> nrows (AList.update k c df) = nrows df"
  by (cases df) (auto simp: nrows_def)

lemma wf_df_update:
  assumes "wf_df df" and "col_len c = nrows df"
  shows "wf_df (AList.update k c df)"
proof -
  have "distinct (columns (AList.update k c df))"
    using assms(1) by (simp add: wf_df_def columns_def distinct_update)
  moreover have "\<forall>kc \<in> set (AList.update k c df). col_len (snd kc) = nrows df"
    using assms set_alist_update [of k c df] by (auto simp: wf_df_def)
  ultimately show ?thesis
    by (simp add: wf_df_def nrows_update [OF assms(2)])
qed

lemma columns_update:
  "columns (AList.update k c df) = (if k \<in> set (columns df) then columns df else columns df @ [k])"
  by (simp add: columns_def update_keys)

lemma length_fillna: "length (fillna v xs) = length xs"
  by (simp add: fillna_def)


lemma impute_median_other: "k \<noteq> c \<Longrightarrow> map_of (impute_median env c df) k = map_of df k"
  by (simp add: impute_median_def update_conv' split: option.splits column.splits)

lemma impute_median_columns: "columns (impute_median env c df) = columns df"
  by (simp add: impute_median_def columns_update lookup_in_columns
      split: option.splits column.splits)

lemma impute_median_wf: "wf_df df \<Longrightarrow> wf_df (impute_median env c df)"
  by (auto simp: impute_median_def length_fillna
      split: option.splits column.splits intro!: wf_df_update dest: wf_df_lookup_len)

lemma impute_median_nrows: "wf_df df \<Longrightarrow> nrows (impute_median env c df) = nrows df"
  by (auto simp: impute_median_def length_fillna
      split: option.splits column.splits intro!: nrows_update dest: wf_df_lookup_len)

lemma fold_impute_median_other:
  "k \<notin> set cs \<Longrightarrow> map_of (fold (impute_median env) cs df) k = map_of df k"
  by (induction cs arbitrary: df) (auto simp: impute_median_other)

lemma fold_impute_median_str:
  "map_of df k = Some (StrCol xs) \<Longrightarrow> map_of (fold (impute_median env) cs df) k = Some (StrCol xs)"
proof (induction cs arbitrary: df)
  case Nil
  then show ?case by simp
next
  case (Cons c cs)
  have "map_of (impute_median env c df) k = Some (StrCol xs)"
  proof (cases "k = c")
    case True
    then show ?thesis using Cons.prems by (simp add: impute_median_def)
  next
    case False
    then show ?thesis using Cons.prems by (simp add: impute_median_other)
  qed
  then show ?case using Cons.IH by simp
qed


lemma fold_impute_median_columns: "columns (fold (impute_median env) cs df) = columns df"
  by (induction cs arbitrary: df) (simp_all add: impute_median_columns)

lemma fold_impute_median_wf:
  "wf_df df \<Longrightarrow> wf_df (fold (impute_median env) cs df) \<and> nrows (fold (impute_median env) cs df) = nrows df"
  by (induction cs arbitrary: df) (simp_all add: impute_median_wf impute_median_nrows)

text \<open>Lines 34-36: the text columns are rewritten in place.\<close>

lemma col_len_strip_upper: "col_len (strip_upper_col env c) = col_len c"
  by (cases c) simp_all

lemma strip_upper_all_lookup:
  "map_of (strip_upper_all env df) k = map_option (strip_upper_col env) (map_of df k)"
  unfolding strip_upper_all_def by (induction df) auto

lemma strip_upper_all_columns: "columns (strip_upper_all env df) = columns df"
  by (simp add: strip_upper_all_def columns_def comp_def)

lemma strip_upper_all_nrows: "nrows (strip_upper_all env df) = nrows df"
  by (cases df) (auto simp: strip_upper_all_def nrows_def col_len_strip_upper)

lemma strip_upper_all_wf: "wf_df df \<Longrightarrow> wf_df (strip_upper_all env df)"
  unfolding wf_df_def strip_upper_all_columns strip_upper_all_nrows
  by (auto simp: strip_upper_all_def col_len_strip_upper)

lemma series_map_eating_vals:
  "set (fillna (Some 0) (series_map EATING_HABIT_RANKING c)) \<subseteq> {Some 0, Some 1, Some 2, Some 3}"
  by (cases c) (auto simp: fillna_def EATING_HABIT_RANKING_def split: option.splits if_splits)

lemma series_map_activity_vals:
  "set (fillna (Some 0) (series_map ACTIVITY_RANKING c)) \<subseteq> {Some 0, Some 1, Some 2, Some 3}"
  by (cases c) (auto simp: fillna_def ACTIVITY_RANKING_def split: option.splits if_splits)

lemma length_series_map: "length (series_map d c) = col_len c"
  by (cases c) simp_all

lemma col_len_rank_col: "col_len (rank_col d c) = col_len c"
  by (simp add: rank_col_def length_fillna length_series_map)

text \<open>Lines 38-40: one rank column is written for each consumption column.\<close>

lemma add_rank_other: "k \<noteq> c @ ''_Rank'' \<Longrightarrow> map_of (add_rank c df) k = map_of df k"
  by (simp add: add_rank_def update_conv' split: option.splits)

lemma add_rank_same:
  "map_of df c = Some src \<Longrightarrow>
   map_of (add_rank c df) (c @ ''_Rank'') = Some (rank_col EATING_HABIT_RANKING src)"
  by (simp add: add_rank_def update_conv')

lemma add_rank_wf: "wf_df df \<Longrightarrow> wf_df (add_rank c df) \<and> nrows (add_rank c df) = nrows df"
  by (auto simp: add_rank_def col_len_rank_col split: option.splits
      intro!: wf_df_update nrows_update dest: wf_df_lookup_len)

lemma add_rank_columns:
  "\<exists>new. columns (add_rank c df) = columns df @ new \<and> set new \<subseteq> {c @ ''_Rank''}"
  by (auto simp: add_rank_def columns_update split: option.splits)

lemma add_rank_keeps_rank:
  assumes "wf_df df" and "has_rank_column df k"
  shows "has_rank_column (add_rank c df) k"
proof (cases "k = c @ ''_Rank'' \<and> map_of df c \<noteq> None")
  case True
  then obtain src where src: "map_of df c = Some src" by auto
  have "col_len src = nrows df" using assms(1) src by (rule wf_df_lookup_len)
  then show ?thesis
    using True src add_rank_wf [OF assms(1), of c] series_map_eating_vals [of src]
    by (simp add: has_rank_column_def add_rank_same rank_col_def length_fillna length_series_map)
next
  case False
  then have "map_of (add_rank c df) k = map_of df k"
    by (cases "k = c @ ''_Rank''") (simp_all add: add_rank_other, simp add: add_rank_def)
  then show ?thesis
    using assms add_rank_wf [OF assms(1), of c] by (simp add: has_rank_column_def)
qed

lemma add_rank_makes_rank:
  assumes "wf_df df" and "c \<in> set (columns df)"
  shows "has_rank_column (add_rank c df) (c @ ''_Rank'')"
proof -
  obtain src where src: "map_of df c = Some src"
    using assms(2) by (cases "map_of df c") (auto simp: columns_def map_of_eq_None_iff)
  have "col_len src = nrows df" using assms(1) src by (rule wf_df_lookup_len)
  then show ?thesis
    using src add_rank_wf [OF assms(1), of c] series_map_eating_vals [of src]
    by (simp add: has_rank_column_def add_rank_same rank_col_def length_fillna length_series_map)
qed

lemma fold_add_rank_wf:
  "wf_df df \<Longrightarrow> wf_df (fold add_rank cs df) \<and> nrows (fold add_rank cs df) = nrows df"
  by (induction cs arbitrary: df) (simp_all add: add_rank_wf)

lemma fold_add_rank_other:
  "\<forall>c \<in> set cs. k \<noteq> c @ ''_Rank'' \<Longrightarrow> map_of (fold add_rank cs df) k = map_of df k"
  by (induction cs arbitrary: df) (simp_all add: add_rank_other)

lemma fold_add_rank_keeps_rank:
  "wf_df df \<Longrightarrow> has_rank_column df k \<Longrightarrow> has_rank_column (fold add_rank cs df) k"
  by (induction cs arbitrary: df) (simp_all add: add_rank_wf add_rank_keeps_rank)

lemma fold_add_rank_columns:
  "\<exists>new. columns (fold add_rank cs df) = columns df @ new \<and>
         set new \<subseteq> (\<lambda>c. c @ ''_Rank'') ` set cs"
proof (induction cs arbitrary: df)
  case Nil
  then show ?case by simp
next
  case (Cons c cs)
  obtain n1 where n1: "columns (add_rank c df) = columns df @ n1" "set n1 \<subseteq> {c @ ''_Rank''}"
    using add_rank_columns by blast
  obtain n2 where n2: "columns (fold add_rank cs (add_rank c df)) = columns (add_rank c df) @ n2"
      "set n2 \<subseteq> (\<lambda>c. c @ ''_Rank'') ` set cs"
    using Cons.IH by blast
  have "columns (fold add_rank (c # cs) df) = columns df @ (n1 @ n2)"
    using n1 n2 by simp
  moreover have "set (n1 @ n2) \<subseteq> (\<lambda>c. c @ ''_Rank'') ` set (c # cs)"
    using n1 n2 by auto
  ultimately show ?case by blast
qed

lemma fold_add_rank_makes_rank:
  "wf_df df \<Longrightarrow> set cs \<subseteq> set (columns df) \<Longrightarrow> c \<in> set cs \<Longrightarrow>
   has_rank_column (fold add_rank cs df) (c @ ''_Rank'')"
proof (induction cs arbitrary: df)
  case Nil
  then show ?case by simp
next
  case (Cons a cs)
  have wf': "wf_df (add_rank a df)" using Cons.prems(1) by (simp add: add_rank_wf)
  have sub': "set cs \<subseteq> set (columns (add_rank a df))"
    using Cons.prems(2) add_rank_columns [of a df] by auto
  show ?case
  proof (cases "c \<in> set cs")
    case True
    then show ?thesis using Cons.IH [OF wf' sub'] by simp
  next
    case False
    then have "c = a" using Cons.prems(3) by simp
    then have "has_rank_column (add_rank a df) (c @ ''_Rank'')"
      using Cons.prems by (simp add: add_rank_makes_rank)
    then show ?thesis using wf' by (simp add: fold_add_rank_keeps_rank)
  qed
qed

text \<open>Lines 42-43: the activity rank.\<close>

lemma add_activity_rank_other:
  "k \<noteq> ''Activity_Rank'' \<Longrightarrow> map_of (add_activity_rank df) k = map_of df k"
  by (simp add: add_activity_rank_def update_conv' split: option.splits)

lemma add_activity_rank_wf:
  "wf_df df \<Longrightarrow> wf_df (add_activity_rank df) \<and> nrows (add_activity_rank df) = nrows df"
  by (auto simp: add_activity_rank_def col_len_rank_col split: option.splits
      intro!: wf_df_update nrows_update dest: wf_df_lookup_len)

lemma add_activity_rank_columns:
  "\<exists>new. columns (add_activity_rank df) = columns df @ new \<and> set new \<subseteq> {''Activity_Rank''}"
  by (auto simp: add_activity_rank_def columns_update split: option.splits)

lemma add_activity_rank_keeps_rank:
  assumes "wf_df df" and "has_rank_column df k"
  shows "has_rank_column (add_activity_rank df) k"
proof (cases "k = ''Activity_Rank'' \<and> map_of df ''Physical Activity level'' \<noteq> None")
  case True
  then obtain src where src: "map_of df ''Physical Activity level'' = Some src" by auto
  have "col_len src = nrows df" using assms(1) src by (rule wf_df_lookup_len)
  then show ?thesis
    using True src add_activity_rank_wf [OF assms(1)] series_map_activity_vals [of src]
    by (simp add: has_rank_column_def add_activity_rank_def update_conv' rank_col_def
        length_fillna length_series_map)
next
  case False
  then have "map_of (add_activity_rank df) k = map_of df k"
    by (cases "k = ''Activity_Rank''")
      (simp_all add: add_activity_rank_other, simp add: add_activity_rank_def)
  then show ?thesis
    using assms add_activity_rank_wf [OF assms(1)] by (simp add: has_rank_column_def)
qed

lemma add_activity_rank_makes_rank:
  assumes "wf_df df" and "map_of df ''Physical Activity level'' = Some src"
  shows "has_rank_column (add_activity_rank df) ''Activity_Rank''"
proof -
  have "col_len src = nrows df" using assms by (rule wf_df_lookup_len)
  then show ?thesis
    using assms(2) add_activity_rank_wf [OF assms(1)] series_map_activity_vals [of src]
    by (simp add: has_rank_column_def add_activity_rank_def update_conv' rank_col_def
        length_fillna length_series_map)
qed

text \<open>The whole of the preprocessing.\<close>

lemma consumption_cols_eq: "columns a = columns b \<Longrightarrow> consumption_cols a = consumption_cols b"
  by (simp add: consumption_cols_def)

lemma consumption_cols_subset: "set (consumption_cols df) \<subseteq> set (columns df)"
  by (auto simp: consumption_cols_def)

lemma columns_stage2:
  "columns (strip_upper_all env (fold (impute_median env) cs df)) = columns df"
  by (simp add: strip_upper_all_columns fold_impute_median_columns)

lemma stage2_wf:
  "wf_df df \<Longrightarrow> wf_df (strip_upper_all env (fold (impute_median env) cs df)) \<and>
     nrows (strip_upper_all env (fold (impute_median env) cs df)) = nrows df"
  by (simp add: strip_upper_all_wf strip_upper_all_nrows fold_impute_median_wf)

lemma preprocess_wf:
  assumes "wf_df df"
  shows "wf_df (preprocess env df) \<and> nrows (preprocess env df) = nrows df"
proof -
  let ?d2 = "strip_upper_all env (fold (impute_median env) numeric_cols df)"
  let ?d3 = "fold add_rank (consumption_cols ?d2) ?d2"
  have 2: "wf_df ?d2 \<and> nrows ?d2 = nrows df" using assms by (rule stage2_wf)
  then have 3: "wf_df ?d3 \<and> nrows ?d3 = nrows df"
    using fold_add_rank_wf [of ?d2 "consumption_cols ?d2"] by simp
  then have "wf_df (add_activity_rank ?d3) \<and> nrows (add_activity_rank ?d3) = nrows df"
    using add_activity_rank_wf [of ?d3] by simp
  then show ?thesis by (simp add: preprocess_def Let_def)
qed

lemma preprocess_columns:
  "\<exists>new. columns (preprocess env df) = columns df @ new \<and>
         set new \<subseteq> insert ''Activity_Rank'' ((\<lambda>c. c @ ''_Rank'') ` set (consumption_cols df))"
proof -
  let ?d2 = "strip_upper_all env (fold (impute_median env) numeric_cols df)"
  let ?d3 = "fold add_rank (consumption_cols ?d2) ?d2"
  have c2: "columns ?d2 = columns df" by (rule columns_stage2)
  then have cc: "consumption_cols ?d2 = consumption_cols df" by (rule consumption_cols_eq)
  obtain n1 where n1: "columns ?d3 = columns ?d2 @ n1"
      "set n1 \<subseteq> (\<lambda>c. c @ ''_Rank'') ` set (consumption_cols ?d2)"
    using fold_add_rank_columns [of "consumption_cols ?d2" ?d2] by blast
  obtain n2 where n2: "columns (add_activity_rank ?d3) = columns ?d3 @ n2"
      "set n2 \<subseteq> {''Activity_Rank''}"
    using add_activity_rank_columns [of ?d3] by blast
  have "columns (preprocess env df) = columns df @ (n1 @ n2)"
    using n1(1) n2(1) c2 by (simp add: preprocess_def Let_def)
  moreover have "set (n1 @ n2) \<subseteq>
      insert ''Activity_Rank'' ((\<lambda>c. c @ ''_Rank'') ` set (consumption_cols df))"
    using n1(2) n2(2) cc by auto
  ultimately show ?thesis by blast
qed

lemma preprocess_consumption_rank:
  assumes "wf_df df" and "c \<in> set (consumption_cols df)"
  shows "has_rank_column (preprocess env df) (c @ ''_Rank'')"
proof -
  let ?d2 = "strip_upper_all env (fold (impute_median env) numeric_cols df)"
  let ?d3 = "fold add_rank (consumption_cols ?d2) ?d2"
  have 2: "wf_df ?d2" using assms(1) stage2_wf by blast
  have cc: "consumption_cols ?d2 = consumption_cols df"
    by (rule consumption_cols_eq) (rule columns_stage2)
  have "has_rank_column ?d3 (c @ ''_Rank'')"
    using 2 consumption_cols_subset [of ?d2] assms(2) cc
    by (intro fold_add_rank_makes_rank) simp_all
  moreover have "wf_df ?d3" using 2 fold_add_rank_wf by blast
  ultimately have "has_rank_column (add_activity_rank ?d3) (c @ ''_Rank'')"
    by (simp add: add_activity_rank_keeps_rank)
  then show ?thesis by (simp add: preprocess_def Let_def)
qed

lemma preprocess_activity_rank:
  assumes "wf_df df" and "''Physical Activity level'' \<in> set (columns df)"
  shows "has_rank_column (preprocess env df) ''Activity_Rank''"
proof -
  let ?d2 = "strip_upper_all env (fold (impute_median env) numeric_cols df)"
  let ?d3 = "fold add_rank (consumption_cols ?d2) ?d2"
  have 2: "wf_df ?d2" using assms(1) stage2_wf by blast
  have 3: "wf_df ?d3" using 2 fold_add_rank_wf by blast
  obtain n1 where "columns ?d3 = columns ?d2 @ n1"
    using fold_add_rank_columns [of "consumption_cols ?d2" ?d2] by blast
  then have "''Physical Activity level'' \<in> set (columns ?d3)"
    using assms(2) by (simp add: columns_stage2)
  then obtain src where "map_of ?d3 ''Physical Activity level'' = Some src"
    using columns_lookup by blast
  then have "has_rank_column (add_activity_rank ?d3) ''Activity_Rank''"
    using 3 by (simp add: add_activity_rank_makes_rank)
  then show ?thesis by (simp add: preprocess_def Let_def)
qed

lemma preprocess_lookup_plain:
  assumes "\<forall>c. k \<noteq> c @ ''_Rank''"
  shows "map_of (preprocess env df) k =
           map_option (strip_upper_col env) (map_of (fold (impute_median env) numeric_cols df) k)"
proof -
  have "k \<noteq> ''Activity_Rank''" using assms [rule_format, of "''Activity''"] by simp
  then show ?thesis
    using assms
    by (simp add: preprocess_def Let_def add_activity_rank_other fold_add_rank_other
        strip_upper_all_lookup)
qed

lemma preprocess_plain_column:
  assumes "k \<notin> set numeric_cols" and "\<forall>c. k \<noteq> c @ ''_Rank''"
  shows "map_of (preprocess env df) k = map_option (strip_upper_col env) (map_of df k)"
  using assms by (simp add: preprocess_lookup_plain fold_impute_median_other)








subsection \<open>The normalizer: the rank columns are the table of their source\<close>

lemma fold_add_rank_exact:
  "c \<in> set cs \<Longrightarrow> \<forall>c' \<in> set cs. c \<noteq> c' @ ''_Rank'' \<Longrightarrow> map_of d c = Some src \<Longrightarrow>
   map_of (fold add_rank cs d) (c @ ''_Rank'') = Some (rank_col EATING_HABIT_RANKING src)"
proof (induction cs arbitrary: d)
  case Nil
  then show ?case by simp
next
  case (Cons a cs)
  show ?case
  proof (cases "c \<in> set cs")
    case True
    have "c \<noteq> a @ ''_Rank''" using Cons.prems(2) by simp
    then have "map_of (add_rank a d) c = Some src"
      using Cons.prems(3) by (simp add: add_rank_other)
    moreover have "\<forall>c' \<in> set cs. c \<noteq> c' @ ''_Rank''" using Cons.prems(2) by simp
    ultimately show ?thesis using Cons.IH [OF True] by simp
  next
    case False
    then have ca: "c = a" using Cons.prems(1) by simp
    have now: "map_of (add_rank a d) (c @ ''_Rank'') = Some (rank_col EATING_HABIT_RANKING src)"
      using ca Cons.prems(3) by (simp add: add_rank_same)
    have "\<forall>c' \<in> set cs. c @ ''_Rank'' \<noteq> c' @ ''_Rank''" using False by auto
    then have "map_of (fold add_rank cs (add_rank a d)) (c @ ''_Rank'') =
               map_of (add_rank a d) (c @ ''_Rank'')"
      by (rule fold_add_rank_other)
    then show ?thesis using now by simp
  qed
qed

lemma consumption_not_activity_rank:
  "c \<in> set (consumption_cols df) \<Longrightarrow> c @ ''_Rank'' \<noteq> ''Activity_Rank''"
proof
  assume c: "c \<in> set (consumption_cols df)" and eq: "c @ ''_Rank'' = ''Activity_Rank''"
  have "''Activity_Rank'' = ''Activity'' @ ''_Rank''" by simp
  then have "c = ''Activity''" using eq by (simp only: append_same_eq)
  then show False using c by (simp add: consumption_cols_def)
qed

lemma consumption_not_rank_name:
  "c \<in> set (consumption_cols df) \<Longrightarrow> c \<noteq> ''Activity_Rank''"
  by (auto simp: consumption_cols_def)

lemma preprocess_consumption_exact:
  assumes c: "c \<in> set (consumption_cols df)"
    and own: "\<forall>c' \<in> set (consumption_cols df). c \<noteq> c' @ ''_Rank''"
  shows "\<exists>src. map_of (preprocess env df) c = Some src \<and>
           map_of (preprocess env df) (c @ ''_Rank'') = Some (rank_col EATING_HABIT_RANKING src)"
proof -
  let ?d2 = "strip_upper_all env (fold (impute_median env) numeric_cols df)"
  let ?cs = "consumption_cols ?d2"
  let ?d3 = "fold add_rank ?cs ?d2"
  have cc: "?cs = consumption_cols df"
    by (rule consumption_cols_eq) (rule columns_stage2)
  have "c \<in> set (columns ?d2)"
    using c consumption_cols_subset [of df] by (auto simp: columns_stage2)
  then obtain src where src: "map_of ?d2 c = Some src"
    using columns_lookup by blast
  have rank3: "map_of ?d3 (c @ ''_Rank'') = Some (rank_col EATING_HABIT_RANKING src)"
    using c own src cc by (intro fold_add_rank_exact) simp_all
  have src3: "map_of ?d3 c = Some src"
    using own src cc by (simp add: fold_add_rank_other)
  have "map_of (add_activity_rank ?d3) (c @ ''_Rank'') = map_of ?d3 (c @ ''_Rank'')"
    using consumption_not_activity_rank [OF c] by (rule add_activity_rank_other)
  moreover have "map_of (add_activity_rank ?d3) c = map_of ?d3 c"
    using consumption_not_rank_name [OF c] by (rule add_activity_rank_other)
  ultimately show ?thesis
    using rank3 src3 by (simp add: preprocess_def Let_def)
qed

lemma preprocess_activity_exact:
  assumes "''Physical Activity level'' \<in> set (columns df)"
  shows "\<exists>src. map_of (preprocess env df) ''Physical Activity level'' = Some src \<and>
           map_of (preprocess env df) ''Activity_Rank'' = Some (rank_col ACTIVITY_RANKING src)"
proof -
  let ?d2 = "strip_upper_all env (fold (impute_median env) numeric_cols df)"
  let ?d3 = "fold add_rank (consumption_cols ?d2) ?d2"
  have "''Physical Activity level'' \<in> set (columns ?d2)"
    using assms by (simp add: columns_stage2)
  then obtain src where src: "map_of ?d2 ''Physical Activity level'' = Some src"
    using columns_lookup by blast
  have "\<forall>c. ''Physical Activity level'' \<noteq> c @ ''_Rank''"
    by (auto dest: arg_cong [where f = last])
  then have src3: "map_of ?d3 ''Physical Activity level'' = Some src"
    using src by (simp add: fold_add_rank_other)
  then have "map_of (add_activity_rank ?d3) ''Activity_Rank'' = Some (rank_col ACTIVITY_RANKING src)"
    by (simp add: add_activity_rank_def update_conv')
  moreover have "map_of (add_activity_rank ?d3) ''Physical Activity level'' = Some src"
    using src3 by (simp add: add_activity_rank_other)
  ultimately show ?thesis by (simp add: preprocess_def Let_def)
qed

subsection \<open>The scorer inside the match\<close>

lemma score_row_spec:
  assumes "ranked_row r"
  shows "score_row u (dict_get ACTIVITY_RANKING (activity u) 0) r = Inr (Some (spec_score u r))"
proof -
  obtain a ri be so sn fr ve where
    "map_of r ''Activity_Rank'' = Some (Num a)"
    "map_of r ''Rice Consumption Rate_Rank'' = Some (Num ri)"
    "map_of r ''Beans Consumption Rate_Rank'' = Some (Num be)"
    "map_of r ''Soft drinks Consumption Rate_Rank'' = Some (Num so)"
    "map_of r ''Snacks Consumption Rate_Rank'' = Some (Num sn)"
    "map_of r ''Fruits Consumption Rate_Rank'' = Some (Num fr)"
    "map_of r ''Vegetables Consumption Rate_Rank'' = Some (Num ve)"
    using assms by (auto simp: ranked_row_def rank_fields_def)
  then show ?thesis
    by (simp add: score_row_def rank_term_def row_get_def bind_exn_def np_mul_def np_add_def
        spec_score_def num_field_def dict_get_eating dict_get_activity)
qed

lemma mapM_score_row_spec:
  "\<forall>r \<in> set rows. ranked_row r \<Longrightarrow>
   mapM_exn (score_row u (dict_get ACTIVITY_RANKING (activity u) 0)) rows =
     Inr (map (\<lambda>r. Some (spec_score u r)) rows)"
  by (induction rows) (simp_all add: score_row_spec bind_exn_def)

lemma find_best_match_spec:
  assumes "candidates df (gender u) (categorize_bmi (bmi u)) = Inr cands"
    and "\<forall>r \<in> set (iterrows cands). ranked_row r"
  shows "find_best_match df u =
           (if nrows cands = 0 then Inr None
            else Inr (select_best cands (map (\<lambda>r. Some (spec_score u r)) (iterrows cands))))"
  using assms by (simp add: find_best_match_def bind_exn_def mapM_score_row_spec)

lemma rank_column_row:
  assumes "has_rank_column df k" and "i < nrows df"
  shows "\<exists>x. map_of (iloc df i) k = Some (Num x)"
proof -
  obtain rs where rs: "map_of df k = Some (NumCol rs)" "length rs = nrows df"
      "set rs \<subseteq> {Some 0, Some 1, Some 2, Some 3}"
    using assms(1) by (auto simp: has_rank_column_def)
  have "rs ! i \<in> set rs" using rs(2) assms(2) by simp
  then obtain x where "rs ! i = Some x" using rs(3) by auto
  then show ?thesis using rs(1) by (simp add: map_of_iloc)
qed

lemma ranked_rows:
  assumes "\<forall>k \<in> set rank_fields. has_rank_column df k"
  shows "\<forall>r \<in> set (iterrows df). ranked_row r"
  using assms rank_column_row [of df]
  by (auto simp: iterrows_def ranked_row_def list_all_iff)

lemma required_consumption:
  assumes "set required_columns \<subseteq> set (columns df)"
  shows "''Rice Consumption Rate'' \<in> set (consumption_cols df)"
    and "''Beans Consumption Rate'' \<in> set (consumption_cols df)"
    and "''Soft drinks Consumption Rate'' \<in> set (consumption_cols df)"
    and "''Snacks Consumption Rate'' \<in> set (consumption_cols df)"
    and "''Fruits Consumption Rate'' \<in> set (consumption_cols df)"
    and "''Vegetables Consumption Rate'' \<in> set (consumption_cols df)"
  using assms by (simp_all add: required_columns_def consumption_cols_def)

lemma preprocess_rows_ranked:
  assumes wf: "wf_df df" and req: "set required_columns \<subseteq> set (columns df)"
  shows "\<forall>r \<in> set (iterrows (preprocess env df)). ranked_row r"
proof (rule ranked_rows)
  have act: "''Physical Activity level'' \<in> set (columns df)"
    using req by (simp add: required_columns_def)
  have "has_rank_column (preprocess env df) ''Activity_Rank''"
    using wf act by (rule preprocess_activity_rank)
  moreover have "has_rank_column (preprocess env df) (''Rice Consumption Rate'' @ ''_Rank'')"
    and "has_rank_column (preprocess env df) (''Beans Consumption Rate'' @ ''_Rank'')"
    and "has_rank_column (preprocess env df) (''Soft drinks Consumption Rate'' @ ''_Rank'')"
    and "has_rank_column (preprocess env df) (''Snacks Consumption Rate'' @ ''_Rank'')"
    and "has_rank_column (preprocess env df) (''Fruits Consumption Rate'' @ ''_Rank'')"
    and "has_rank_column (preprocess env df) (''Vegetables Consumption Rate'' @ ''_Rank'')"
    using wf required_consumption [OF req] by (simp_all only: preprocess_consumption_rank)
  ultimately show "\<forall>k \<in> set rank_fields. has_rank_column (preprocess env df) k"
    by (simp add: rank_fields_def)
qed

lemma preprocess_keeps_column:
  "k \<in> set (columns df) \<Longrightarrow> k \<in> set (columns (preprocess env df))"
  using preprocess_columns [of env df] by auto

lemma find_best_match_on_preprocessed:
  assumes wf: "wf_df df" and req: "set required_columns \<subseteq> set (columns df)"
  shows "\<exists>cands. candidates (preprocess env df) (gender u) (categorize_bmi (bmi u)) = Inr cands \<and>
           find_best_match (preprocess env df) u =
             (if nrows cands = 0 then Inr None
              else Inr (select_best cands (map (\<lambda>r. Some (spec_score u r)) (iterrows cands))))"
proof -
  let ?d = "preprocess env df"
  have wfd: "wf_df ?d" using preprocess_wf [OF wf] by simp
  have g: "''Gender'' \<in> set (columns ?d)" and c: "''BMI Category'' \<in> set (columns ?d)"
    using req by (simp_all add: required_columns_def preprocess_keeps_column)
  obtain cands where cands: "candidates ?d (gender u) (categorize_bmi (bmi u)) = Inr cands"
      "iterrows cands = filter (row_matches (gender u) (categorize_bmi (bmi u))) (iterrows ?d)"
    using candidates_filter [OF wfd g c] by blast
  have "\<forall>r \<in> set (iterrows cands). ranked_row r"
    using preprocess_rows_ranked [OF wf req, of env] cands(2) by simp
  then show ?thesis
    using cands(1) find_best_match_spec by blast
qed

subsection \<open>The examples, evaluated\<close>

lemmas runtime_unfold =
  pandas_1_def pandas_2_def pandas_cow_def ascii_strip_def ascii_upper_def upper_char_def
  is_space_def ascii_lowercase_def ascii_uppercase_def



lemma example_raw_rice: "''Rice Consumption Rate'' \<in> set (consumption_cols example_raw)"
  by (simp add: consumption_cols_def example_raw_def columns_def)

lemma example_raw_rice_own:
  "\<forall>c' \<in> set (consumption_cols example_raw). ''Rice Consumption Rate'' \<noteq> c' @ ''_Rank''"
  by (simp add: consumption_cols_def example_raw_def columns_def)

lemma example_raw_rice_plain:
  "''Rice Consumption Rate'' \<notin> set numeric_cols"
  "\<forall>c. ''Rice Consumption Rate'' \<noteq> c @ ''_Rank''"
  by (auto simp: numeric_cols_def dest: arg_cong [where f = last])

lemma example_raw_activity_plain:
  "''Physical Activity level'' \<notin> set numeric_cols"
  "\<forall>c. ''Physical Activity level'' \<noteq> c @ ''_Rank''"
  by (auto simp: numeric_cols_def dest: arg_cong [where f = last])

lemma example_raw_rice_column:
  "map_of (preprocess pandas_1 example_raw) ''Rice Consumption Rate'' =
     Some (StrCol [Some ''OFTEN'', Some ''OFTEN'', Some ''DAILY'', None, Some ''SOMETIMES''])"
  "map_of (preprocess pandas_2 example_raw) ''Rice Consumption Rate'' =
     Some (StrCol [Some ''Often'', Some ''often'', Some ''Daily'', None, Some ''sometimes''])"
  by (simp_all add: preprocess_plain_column [OF example_raw_rice_plain] example_raw_def
      runtime_unfold)

lemma example_raw_activity_column:
  "map_of (preprocess pandas_1 example_raw) ''Physical Activity level'' =
     Some (StrCol [Some ''ACTIVE'', Some ''VERY ACTIVE'', None, Some ''ACTIVE'',
                   Some ''LIGHT ACTIVE''])"
  "map_of (preprocess pandas_2 example_raw) ''Physical Activity level'' =
     Some (StrCol [Some ''Active'', Some ''Very active '', None, Some ''Active'',
                   Some ''Light Active''])"
  by (simp_all add: preprocess_plain_column [OF example_raw_activity_plain] example_raw_def
      runtime_unfold)

lemma example_dataset_wf: "wf_df example_dataset"
  by (simp add: wf_df_def example_dataset_def columns_def nrows_def)

lemma example_dataset_required: "set required_columns \<subseteq> set (columns example_dataset)"
  by (simp add: required_columns_def example_dataset_def columns_def)

lemma scenario_candidates:
  "candidates scenario_frame (gender scenario_user) (categorize_bmi (bmi scenario_user)) =
     Inr (bool_index scenario_frame [False, True, True])"
  by (simp add: candidates_def getitem_def bind_exn_def scenario_frame_def scenario_user_def
      categorize_bmi_def)

lemma scenario_candidates_ranked:
  "\<forall>r \<in> set (iterrows (bool_index scenario_frame [False, True, True])). ranked_row r"
  by (simp add: scenario_frame_def bool_index_def nonzero_def nrows_def iterrows_def iloc_def
      ranked_row_def rank_fields_def)

lemma scenario_candidates_rows: "nrows (bool_index scenario_frame [False, True, True]) = 2"
  by (simp add: scenario_frame_def bool_index_def nonzero_def nrows_def)

subsection \<open>The ordinal mappings in the normalizer and in the match\<close>

text \<open>
  C5. Both ordinal mappings are total and follow the table NEVER=0, RARELY=1, OFTEN=2,
  DAILY=3 and LIGHT ACTIVE=0, MODERATELY ACTIVE=1, ACTIVE=2, VERY ACTIVE=3, with rank 0 for
  every other string, every missing value and every number.
  On the side of the dataset, for every runtime: the rank column that the normalizer
  writes for a consumption-frequency column, and the one it writes for the activity
  column, is the table applied row by row to that column as the normalized frame holds
  it. (A consumption column is excepted when its own name is the rank name of another.)
  On the side of the user: when the candidates have numeric ranks, the match scores them
  with the table applied to the user's seven selections and raises nothing; on a
  normalized dataset that has the required columns this is so for every user profile.
\<close>

theorem ordinal_mappings_total:
  "dict_get EATING_HABIT_RANKING s 0 = spec_frequency_rank (Some s) \<and>
   dict_get ACTIVITY_RANKING s 0 = spec_activity_rank (Some s) \<and>
   (s \<notin> set (map fst EATING_HABIT_RANKING) \<longrightarrow> dict_get EATING_HABIT_RANKING s 0 = 0) \<and>
   (s \<notin> set (map fst ACTIVITY_RANKING) \<longrightarrow> dict_get ACTIVITY_RANKING s 0 = 0) \<and>
   rank_col EATING_HABIT_RANKING (StrCol xs) =
     NumCol (map (\<lambda>x. Some (real_of_int (spec_frequency_rank x))) xs) \<and>
   rank_col ACTIVITY_RANKING (StrCol xs) =
     NumCol (map (\<lambda>x. Some (real_of_int (spec_activity_rank x))) xs) \<and>
   rank_col d (NumCol ys) = NumCol (map (\<lambda>y. Some 0) ys) \<and>
   (c \<in> set (consumption_cols df) \<and>
    (\<forall>c' \<in> set (consumption_cols df). c \<noteq> c' @ ''_Rank'') \<longrightarrow>
      (\<exists>src. map_of (preprocess env df) c = Some src \<and>
         map_of (preprocess env df) (c @ ''_Rank'') =
           Some (rank_col EATING_HABIT_RANKING src))) \<and>
   (''Physical Activity level'' \<in> set (columns df) \<longrightarrow>
      (\<exists>src. map_of (preprocess env df) ''Physical Activity level'' = Some src \<and>
         map_of (preprocess env df) ''Activity_Rank'' = Some (rank_col ACTIVITY_RANKING src))) \<and>
   (candidates frame (gender u) (categorize_bmi (bmi u)) = Inr cands \<and>
    (\<forall>r \<in> set (iterrows cands). ranked_row r) \<longrightarrow>
      find_best_match frame u =
        (if nrows cands = 0 then Inr None
         else Inr (select_best cands (map (\<lambda>r. Some (spec_score u r)) (iterrows cands))))) \<and>
   (wf_df df \<and> set required_columns \<subseteq> set (columns df) \<longrightarrow>
      (\<exists>found. candidates (preprocess env df) (gender u) (categorize_bmi (bmi u)) = Inr found \<and>
         find_best_match (preprocess env df) u =
           (if nrows found = 0 then Inr None
            else Inr (select_best found
                        (map (\<lambda>r. Some (spec_score u r)) (iterrows found))))))"
proof -
  have f3: "s \<notin> set (map fst EATING_HABIT_RANKING) \<longrightarrow> dict_get EATING_HABIT_RANKING s 0 = 0"
    by (simp add: dict_get_def EATING_HABIT_RANKING_def)
  have f4: "s \<notin> set (map fst ACTIVITY_RANKING) \<longrightarrow> dict_get ACTIVITY_RANKING s 0 = 0"
    by (simp add: dict_get_def ACTIVITY_RANKING_def)
  have f8: "c \<in> set (consumption_cols df) \<and>
      (\<forall>c' \<in> set (consumption_cols df). c \<noteq> c' @ ''_Rank'') \<longrightarrow>
      (\<exists>src. map_of (preprocess env df) c = Some src \<and>
         map_of (preprocess env df) (c @ ''_Rank'') =
           Some (rank_col EATING_HABIT_RANKING src))"
    using preprocess_consumption_exact by blast
  have f9: "''Physical Activity level'' \<in> set (columns df) \<longrightarrow>
      (\<exists>src. map_of (preprocess env df) ''Physical Activity level'' = Some src \<and>
         map_of (preprocess env df) ''Activity_Rank'' = Some (rank_col ACTIVITY_RANKING src))"
    using preprocess_activity_exact by blast
  have f10: "candidates frame (gender u) (categorize_bmi (bmi u)) = Inr cands \<and>
      (\<forall>r \<in> set (iterrows cands). ranked_row r) \<longrightarrow>
      find_best_match frame u =
        (if nrows cands = 0 then Inr None
         else Inr (select_best cands (map (\<lambda>r. Some (spec_score u r)) (iterrows cands))))"
    using find_best_match_spec by blast
  have f11: "wf_df df \<and> set required_columns \<subseteq> set (columns df) \<longrightarrow>
      (\<exists>found. candidates (preprocess env df) (gender u) (categorize_bmi (bmi u)) = Inr found \<and>
         find_best_match (preprocess env df) u =
           (if nrows found = 0 then Inr None
            else Inr (select_best found
                        (map (\<lambda>r. Some (spec_score u r)) (iterrows found)))))"
    using find_best_match_on_preprocessed by blast
  show ?thesis
    by (intro conjI)
      (rule dict_get_eating dict_get_activity f3 f4 rank_col_eating rank_col_activity
        rank_col_num f8 f9 f10 f11)+
qed

theorem ordinal_mappings_total_witness:
  "dict_get EATING_HABIT_RANKING ''DAILY'' 0 = 3 \<and>
   dict_get ACTIVITY_RANKING ''sedentary'' 0 = 0 \<and>
   ''sedentary'' \<notin> set (map fst ACTIVITY_RANKING) \<and>
   rank_col EATING_HABIT_RANKING (StrCol [Some ''OFTEN'', None, Some ''often'']) =
     NumCol [Some 2, Some 0, Some 0] \<and>
   rank_col ACTIVITY_RANKING (NumCol [Some 1, None]) = NumCol [Some 0, Some 0] \<and>
   map_of (preprocess pandas_1 example_raw) ''Rice Consumption Rate_Rank'' =
     Some (NumCol [Some 2, Some 2, Some 3, Some 0, Some 0]) \<and>
   map_of (preprocess pandas_2 example_raw) ''Rice Consumption Rate_Rank'' =
     Some (NumCol [Some 0, Some 0, Some 0, Some 0, Some 0]) \<and>
   map_of (preprocess pandas_1 example_raw) ''Activity_Rank'' =
     Some (NumCol [Some 2, Some 3, Some 0, Some 2, Some 0]) \<and>
   map_of (preprocess pandas_2 example_raw) ''Activity_Rank'' =
     Some (NumCol [Some 0, Some 0, Some 0, Some 0, Some 0]) \<and>
   find_best_match scenario_frame scenario_user =
     Inr (select_best (bool_index scenario_frame [False, True, True])
            (map (\<lambda>r. Some (spec_score scenario_user r))
               (iterrows (bool_index scenario_frame [False, True, True])))) \<and>
   wf_df example_dataset \<and> set required_columns \<subseteq> set (columns example_dataset) \<and>
   (\<exists>found. candidates (preprocess pandas_2 example_dataset) (gender scenario_user)
              (categorize_bmi (bmi scenario_user)) = Inr found \<and>
      find_best_match (preprocess pandas_2 example_dataset) scenario_user =
        (if nrows found = 0 then Inr None
         else Inr (select_best found
                     (map (\<lambda>r. Some (spec_score scenario_user r)) (iterrows found)))))"
proof -
  have act: "''Physical Activity level'' \<in> set (columns example_raw)"
    by (simp add: example_raw_def columns_def)
  note t1 = ordinal_mappings_total [of "''DAILY''" "[Some ''OFTEN'', None, Some ''often'']"
      ACTIVITY_RANKING "[Some 1, None]" "''Rice Consumption Rate''" example_raw pandas_1
      scenario_frame scenario_user "bool_index scenario_frame [False, True, True]"]
  note t2 = ordinal_mappings_total [of "''sedentary''" "[]" ACTIVITY_RANKING "[]"
      "''Rice Consumption Rate''" example_raw pandas_2
      scenario_frame scenario_user "bool_index scenario_frame [False, True, True]"]
  note t3 = ordinal_mappings_total [of "''sedentary''" "[]" ACTIVITY_RANKING "[]"
      "''Rice Consumption Rate''" example_dataset pandas_2
      scenario_frame scenario_user "bool_index scenario_frame [False, True, True]"]
  have w1: "dict_get EATING_HABIT_RANKING ''DAILY'' 0 = 3"
    using t1 by (simp add: spec_frequency_rank_def)
  have w2: "dict_get ACTIVITY_RANKING ''sedentary'' 0 = 0"
    using t2 by (simp add: spec_activity_rank_def)
  have w3: "''sedentary'' \<notin> set (map fst ACTIVITY_RANKING)"
    by (simp add: ACTIVITY_RANKING_def)
  have w4: "rank_col EATING_HABIT_RANKING (StrCol [Some ''OFTEN'', None, Some ''often'']) =
     NumCol [Some 2, Some 0, Some 0]"
    using t1 by (simp add: spec_frequency_rank_def)
  have w5: "rank_col ACTIVITY_RANKING (NumCol [Some 1, None]) = NumCol [Some 0, Some 0]"
    using t1 by simp
  have w6: "map_of (preprocess pandas_1 example_raw) ''Rice Consumption Rate_Rank'' =
     Some (NumCol [Some 2, Some 2, Some 3, Some 0, Some 0])"
    using t1 example_raw_rice example_raw_rice_own example_raw_rice_column(1)
    by (auto simp: rank_col_eating spec_frequency_rank_def)
  have w7: "map_of (preprocess pandas_2 example_raw) ''Rice Consumption Rate_Rank'' =
     Some (NumCol [Some 0, Some 0, Some 0, Some 0, Some 0])"
    using t2 example_raw_rice example_raw_rice_own example_raw_rice_column(2)
    by (auto simp: rank_col_eating spec_frequency_rank_def)
  have w8: "map_of (preprocess pandas_1 example_raw) ''Activity_Rank'' =
     Some (NumCol [Some 2, Some 3, Some 0, Some 2, Some 0])"
    using t1 act example_raw_activity_column(1)
    by (auto simp: rank_col_activity spec_activity_rank_def)
  have w9: "map_of (preprocess pandas_2 example_raw) ''Activity_Rank'' =
     Some (NumCol [Some 0, Some 0, Some 0, Some 0, Some 0])"
    using t2 act example_raw_activity_column(2)
    by (auto simp: rank_col_activity spec_activity_rank_def)
  have w10: "find_best_match scenario_frame scenario_user =
     Inr (select_best (bool_index scenario_frame [False, True, True])
            (map (\<lambda>r. Some (spec_score scenario_user r))
               (iterrows (bool_index scenario_frame [False, True, True]))))"
    using t1 scenario_candidates scenario_candidates_ranked scenario_candidates_rows by simp
  have w11: "\<exists>found. candidates (preprocess pandas_2 example_dataset) (gender scenario_user)
              (categorize_bmi (bmi scenario_user)) = Inr found \<and>
      find_best_match (preprocess pandas_2 example_dataset) scenario_user =
        (if nrows found = 0 then Inr None
         else Inr (select_best found
                     (map (\<lambda>r. Some (spec_score scenario_user r)) (iterrows found))))"
    using t3 example_dataset_wf example_dataset_required by blast
  show ?thesis
    by (intro conjI)
      (rule w1 w2 w3 w4 w5 w6 w7 w8 w9 w10 w11 example_dataset_wf example_dataset_required)+
qed





subsection \<open>The normalizer: median imputation\<close>




subsection \<open>The normalizer: shape of the result\<close>




subsection \<open>Loading\<close>

text \<open>
  C7, as stated, covers a file that is absent or unreadable. The handler of line 46
  catches \<open>FileNotFoundError\<close> only: when the file is there and cannot be read, the
  exception of \<open>read_csv\<close> leaves \<open>load_and_preprocess_data\<close> and \<open>main\<close> uncaught.
\<close>

theorem load_unreadable_file_raises:
  "load_and_preprocess_data pandas_2 (Raised PermissionError) = Inl PermissionError \<and>
   load_and_preprocess_data pandas_2 (Raised PermissionError) \<noteq> Inr None \<and>
   main pandas_2 (\<lambda>x. []) (Raised PermissionError) example_user True = Inl PermissionError"
  by (simp add: main_def bind_exn_def)

text \<open>
  C7, amended. When the file is absent, loading raises nothing and returns \<open>None\<close>; the page
  is then the title, the introduction and the message that the file was not found,
  whatever the user selected and whether or not the button was pressed, so no match is
  run. Loading returns \<open>None\<close> in that case only, and a frame that was read is returned
  preprocessed as a whole.
\<close>

theorem load_missing_file_unavailable:
  "load_and_preprocess_data env (Raised FileNotFoundError) = Inr None \<and>
   main env repr (Raised FileNotFoundError) sel button =
     Inr (page_head @
          [Error (''Dataset file not found. Please make sure ''
                  @ '''Complete Secondary Data - Sheet1 (1).csv' ''
                  @ ''is in the same directory.'')]) \<and>
   (load_and_preprocess_data env rd = Inr None \<longleftrightarrow> rd = Raised FileNotFoundError) \<and>
   load_and_preprocess_data env (Loaded df) = Inr (Some (preprocess env df))"
  by (cases rd) (simp_all add: main_def bind_exn_def)

theorem load_missing_file_unavailable_witness:
  "main pandas_2 (\<lambda>x. []) (Raised FileNotFoundError) example_user True =
     Inr (page_head @
          [Error (''Dataset file not found. Please make sure ''
                  @ '''Complete Secondary Data - Sheet1 (1).csv' ''
                  @ ''is in the same directory.'')]) \<and>
   load_and_preprocess_data pandas_2 (Loaded example_raw) \<noteq> Inr None"
  using load_missing_file_unavailable [of pandas_2 "\<lambda>x. []" example_user True
      "Loaded example_raw" example_raw]
  by simp

end
